theory Spec2Isabelle
  imports Complex_Main
begin

section \<open>JavaScript strings and numbers\<close>

text \<open>
  A JavaScript string is modelled as a \<open>string\<close>, one \<open>char\<close> per code unit.
  Characters beyond Latin-1 occur only as three glyphs in a literal of the thumbnail
  command; they are written as their UTF-8 bytes. Non-negative integral numbers are
  \<open>nat\<close>.
\<close>

text \<open>\<open>String(n)\<close> for a non-negative integer: its decimal digits.\<close>

definition digit_char :: "nat \<Rightarrow> char" where
  "digit_char d = ''0123456789'' ! d"

fun toString :: "nat \<Rightarrow> string" where
  "toString n = (if n < 10 then [digit_char n] else toString (n div 10) @ [digit_char (n mod 10)])"

declare toString.simps [simp del]

text \<open>\<open>s.padStart(w, c)\<close> with a single pad character.\<close>

definition padStart :: "nat \<Rightarrow> char \<Rightarrow> string \<Rightarrow> string" where
  "padStart w c s = replicate (w - length s) c @ s"

text \<open>\<open>s.split(sep)\<close> for a one-character separator: cut at every occurrence.\<close>

fun splitBy :: "(char \<Rightarrow> bool) \<Rightarrow> string \<Rightarrow> string list" where
  "splitBy P [] = [[]]"
| "splitBy P (c # cs) =
     (if P c then [] # splitBy P cs
      else (case splitBy P cs of [] \<Rightarrow> [[c]] | w # ws \<Rightarrow> (c # w) # ws))"

definition split_space :: "string \<Rightarrow> string list" where
  "split_space s = splitBy (\<lambda>c. c = CHR '' '') s"

section \<open>Script generator: the timeline of narration segments\<close>

datatype SegmentType = Hook | Context | Explanation | Summary | Cta

fun type_name :: "SegmentType \<Rightarrow> string" where
  "type_name Hook = ''hook''"
| "type_name Context = ''context''"
| "type_name Explanation = ''explanation''"
| "type_name Summary = ''summary''"
| "type_name Cta = ''cta''"

record ScriptSegment =
  seg_type :: SegmentType
  startTime :: nat
  endTime :: nat
  duration :: nat
  seg_text :: string
  visualHint :: string

record GeneratedScript =
  script_id :: string
  topic :: string
  title :: string
  segments :: "ScriptSegment list"
  totalWords :: nat
  estimatedDuration :: nat

text \<open>
  \<open>calculateSegmentDuration\<close>: \<open>Math.ceil(wordCount / 2.5)\<close>. The source divides in
  double precision; for every length a string can have, the rounded quotient and
  the exact one have the same ceiling, and the model takes the exact one.
\<close>

definition calculateSegmentDuration :: "nat \<Rightarrow> nat" where
  "calculateSegmentDuration wordCount = nat \<lceil>real wordCount / 2.5\<rceil>"

text \<open>The word count the generator uses everywhere: \<open>text.split(' ').length\<close>.\<close>

definition wordCount :: "string \<Rightarrow> nat" where
  "wordCount t = length (split_space t)"

text \<open>
  \<open>generateCTA\<close>: one of three fixed texts; the argument is the drawn index
  \<open>Math.floor(Math.random() * ctas.length)\<close>, which is 0, 1 or 2. Each template
  literal spans two source lines, so it holds a line feed and the second line's
  six spaces of indentation.
\<close>

definition LF :: char where
  "LF = CHR 0x0A"

fun generateCTA :: "nat \<Rightarrow> string" where
  "generateCTA 0 =
     ''If you found this helpful, please like and subscribe for more content like this.'' @ [LF] @
     ''      Your support helps me create more valuable videos.''"
| "generateCTA (Suc 0) =
     ''What topic should I cover next? Let me know in the comments below.'' @ [LF] @
     ''      Don'' @ [CHR 0x27] @ ''t forget to hit the notification bell so you don'' @ [CHR 0x27] @
     ''t miss future videos.''"
| "generateCTA _ =
     ''Check out the description for additional resources and links.'' @ [LF] @
     ''      If you have questions, ask them in the comments and I'' @ [CHR 0x27] @
     ''ll do my best to help.''"

text \<open>
  The block \<open>generateScript\<close> repeats for every segment: compute the duration from
  the text, push the segment at \<open>currentTime\<close>, advance \<open>currentTime\<close>. The state is
  the pair of \<open>segments\<close> and \<open>currentTime\<close>.
\<close>

definition pushSegment ::
  "ScriptSegment list \<times> nat \<Rightarrow> SegmentType \<Rightarrow> string \<Rightarrow> string \<Rightarrow> ScriptSegment list \<times> nat" where
  "pushSegment st ty txt hint =
     (let currentTime = snd st;
          d = calculateSegmentDuration (wordCount txt)
      in (fst st @ [\<lparr>seg_type = ty, startTime = currentTime, endTime = currentTime + d,
                      duration = d, seg_text = txt, visualHint = hint\<rparr>],
          currentTime + d))"

text \<open>The loop over \<open>explanation.entries()\<close>; \<open>index\<close> counts from 0.\<close>

fun pushExplanation ::
  "ScriptSegment list \<times> nat \<Rightarrow> nat \<Rightarrow> string list \<Rightarrow> ScriptSegment list \<times> nat" where
  "pushExplanation st index [] = st"
| "pushExplanation st index (paragraph # rest) =
     pushExplanation (pushSegment st Explanation paragraph (''step_'' @ toString (index + 1)))
       (index + 1) rest"

text \<open>
  \<open>generateScript\<close>. The texts returned by \<open>generateHook\<close>, \<open>generateContext\<close>,
  \<open>generateExplanation\<close>, \<open>generateSummary\<close> and \<open>generateCTA\<close> and the value of
  \<open>crypto.randomUUID()\<close> are arguments. The fields \<open>targetKeywords\<close> and \<open>timestamp\<close>,
  which no later stage reads, are left out.
\<close>

definition generateScript ::
  "string \<Rightarrow> string \<Rightarrow> string \<Rightarrow> string \<Rightarrow> string list \<Rightarrow> string \<Rightarrow> string \<Rightarrow> GeneratedScript" where
  "generateScript query uuid hook context explanation summary cta =
     (let st0 = ([], 0);
          st1 = pushSegment st0 Hook hook ''attention_grabber'';
          st2 = pushSegment st1 Context context ''explanation_visual'';
          st3 = pushExplanation st2 0 explanation;
          st4 = pushSegment st3 Summary summary ''recap_visual'';
          st5 = pushSegment st4 Cta cta ''end_screen'';
          segs = fst st5;
          currentTime = snd st5
      in \<lparr>script_id = uuid, topic = query,
          title = query @ '' - Complete Guide & Tutorial'',
          segments = segs,
          totalWords = foldl (\<lambda>sum seg. sum + wordCount (seg_text seg)) 0 segs,
          estimatedDuration = currentTime\<rparr>)"

text \<open>
  The word count as the specification words it, for comparison: the number of
  maximal runs of non-whitespace characters.
\<close>

definition is_whitespace :: "char \<Rightarrow> bool" where
  "is_whitespace c = (c \<in> set [CHR '' '', CHR 0x09, CHR 0x0A, CHR 0x0B, CHR 0x0C, CHR 0x0D])"

definition whitespace_tokens :: "string \<Rightarrow> string list" where
  "whitespace_tokens t = filter (\<lambda>w. w \<noteq> []) (splitBy is_whitespace t)"


text \<open>
  The layout invariant of a segment list: it starts at \<open>t\<close>, every segment lasts the
  duration computed from its text, and each one starts where the one before ends,
  the last one ending at \<open>T\<close>.
\<close>

fun laid_out :: "nat \<Rightarrow> ScriptSegment list \<Rightarrow> nat \<Rightarrow> bool" where
  "laid_out t [] T = (t = T)"
| "laid_out t (s # ss) T =
     (startTime s = t \<and> duration s = calculateSegmentDuration (wordCount (seg_text s)) \<and>
      endTime s = startTime s + duration s \<and> laid_out (endTime s) ss T)"

section \<open>Caption track\<close>

text \<open>
  \<open>formatTime\<close>. The offsets of a generated script are whole seconds, so \<open>seconds\<close>
  is a \<open>nat\<close>; \<open>Math.floor\<close> of a whole number is the number itself.
\<close>

definition formatTime :: "nat \<Rightarrow> string" where
  "formatTime seconds =
     (let hours = seconds div 3600;
          minutes = (seconds mod 3600) div 60;
          secs = seconds mod 60;
          ms = (seconds mod 1) * 1000
      in padStart 2 CHR ''0'' (toString hours) @ '':'' @
         padStart 2 CHR ''0'' (toString minutes) @ '':'' @
         padStart 2 CHR ''0'' (toString secs) @ '','' @
         padStart 3 CHR ''0'' (toString ms))"

text \<open>The loop of \<open>generateCaptions\<close>; the state is \<open>captionsContent\<close> and \<open>captionIndex\<close>.\<close>

fun captionsLoop :: "string \<times> nat \<Rightarrow> ScriptSegment list \<Rightarrow> string \<times> nat" where
  "captionsLoop st [] = st"
| "captionsLoop (captionsContent, captionIndex) (segment # rest) =
     captionsLoop
       (captionsContent @ toString captionIndex @ [LF] @
        formatTime (startTime segment) @ '' --> '' @ formatTime (endTime segment) @ [LF] @
        seg_text segment @ [LF, LF],
        captionIndex + 1) rest"

definition captionsContent :: "GeneratedScript \<Rightarrow> string" where
  "captionsContent script = fst (captionsLoop ([], 1) (segments script))"

text \<open>
  The caption cue of the specification, for comparison with the loop: an index, a
  time range and a text, rendered as a numbered block.
\<close>

record CaptionCue =
  cue_index :: nat
  cue_start :: nat
  cue_end :: nat
  cue_text :: string

definition spec_cues :: "ScriptSegment list \<Rightarrow> CaptionCue list" where
  "spec_cues segs =
     map (\<lambda>i. \<lparr>cue_index = i + 1, cue_start = startTime (segs ! i),
               cue_end = endTime (segs ! i), cue_text = seg_text (segs ! i)\<rparr>)
       [0 ..< length segs]"

definition spec_render_cue :: "CaptionCue \<Rightarrow> string" where
  "spec_render_cue c =
     toString (cue_index c) @ [LF] @
     formatTime (cue_start c) @ '' --> '' @ formatTime (cue_end c) @ [LF] @
     cue_text c @ [LF, LF]"

text \<open>Reading a decimal numeral back, to state what a timestamp denotes.\<close>

definition digit_val :: "char \<Rightarrow> nat" where
  "digit_val c = of_char c - 48"

definition is_digit :: "char \<Rightarrow> bool" where
  "is_digit c = (c \<in> set ''0123456789'')"

definition parse_nat :: "string \<Rightarrow> nat" where
  "parse_nat s = foldl (\<lambda>n c. 10 * n + digit_val c) 0 s"

section \<open>The environment of the generators\<close>

text \<open>
  The generators run external commands and touch the file system. The environment
  is a record of what these calls answer: the outcome of running a command line
  (its exit status and its running time), the size \<open>fs.stat\<close> reports for a path,
  whether \<open>fs.access\<close> and \<open>fs.writeFile\<close> succeed, the value of \<open>Date.now()\<close>, the
  indices drawn with \<open>Math.random()\<close>, the configured directories and thumbnail
  size, and the library function \<open>path.join\<close>. The answers are fixed for one run:
  no generator runs the same command twice or looks at the size of a path twice.
\<close>

record proc_result =
  exit_ok :: bool
  elapsed_ms :: nat

record world =
  outputDir :: string
  assetsDir :: string
  thumb_width :: nat
  thumb_height :: nat
  path_join :: "string list \<Rightarrow> string"
  run :: "string \<Rightarrow> proc_result"
  stat_size :: "string \<Rightarrow> nat option"
  access_ok :: "string \<Rightarrow> bool"
  write_ok :: "string \<Rightarrow> bool"
  date_now :: nat
  random_prefix :: nat
  random_color :: nat

text \<open>A rejected promise is an error value; every call appends what it did to a trace.\<close>

datatype error =
    ExecFailed string
  | ExecTimeout string
  | StatFailed string
  | WriteFailed string
  | EmptyVideo
  | EmptyThumbnail

datatype action = Exec string | WriteFile string string | Unlink string

type_synonym 'a io = "action list \<Rightarrow> action list \<times> (error + 'a)"

text \<open>
  \<open>execAsync(command, {timeout})\<close>: the child is killed, and the promise rejected,
  when it runs longer than a positive \<open>timeout\<close>; otherwise the promise is rejected
  when the command does not exit with status 0.
\<close>

definition execAsync :: "world \<Rightarrow> nat \<Rightarrow> string \<Rightarrow> unit io" where
  "execAsync w timeout command tr =
     (tr @ [Exec command],
      if 0 < timeout \<and> timeout < elapsed_ms (run w command) then Inl (ExecTimeout command)
      else if exit_ok (run w command) then Inr ()
      else Inl (ExecFailed command))"

definition dq :: string where
  "dq = [CHR 0x22]"

definition sq :: string where
  "sq = [CHR 0x27]"

definition bslash :: string where
  "bslash = [CHR 0x5C]"

section \<open>Video generator\<close>

record VideoGenerationOptions =
  script :: GeneratedScript
  voiceoverPath :: string
  resolution :: "(nat \<times> nat) option"
  framerate :: "nat option"

text \<open>\<open>getSegmentColor\<close>: a lookup in a fixed table, \<open>'black'\<close> for any other key.\<close>

definition getSegmentColor :: "string \<Rightarrow> string" where
  "getSegmentColor ty =
     (case map_of [(''hook'', ''darkblue''), (''context'', ''darkgreen''),
                   (''explanation'', ''darkred''), (''summary'', ''darkorange''),
                   (''cta'', ''darkviolet'')] ty of
        Some c \<Rightarrow> c
      | None \<Rightarrow> ''black'')"

text \<open>The character classes \<open>\w\<close> and \<open>\s\<close> of the regular expression \<open>/[^\w\s]/g\<close>.\<close>

definition is_word_char :: "char \<Rightarrow> bool" where
  "is_word_char c =
     (let n = (of_char c :: nat)
      in (48 \<le> n \<and> n \<le> 57) \<or> (65 \<le> n \<and> n \<le> 90) \<or> n = 95 \<or> (97 \<le> n \<and> n \<le> 122))"

definition is_regex_space :: "char \<Rightarrow> bool" where
  "is_regex_space c = (is_whitespace c \<or> c = CHR 0xA0)"

definition segmentImageCommand :: "ScriptSegment \<Rightarrow> string \<Rightarrow> nat \<Rightarrow> string" where
  "segmentImageCommand segment outputPath index =
     (let text = filter (\<lambda>c. is_word_char c \<or> is_regex_space c) (take 100 (seg_text segment));
          bgColor = getSegmentColor (type_name (seg_type segment))
      in ''convert -size 1920x1080 xc:'' @ bgColor @ '' '' @
         ''      -font Arial -pointsize 72 -fill white -gravity center '' @
         ''      -annotate +0+0 '' @ dq @ ''Segment '' @ toString (index + 1) @ bslash @ ''n'' @
           type_name (seg_type segment) @ bslash @ ''n'' @ bslash @ ''n'' @ text @ dq @ '' '' @
         ''      '' @ dq @ outputPath @ dq)"

definition segmentFallbackCommand :: "ScriptSegment \<Rightarrow> string \<Rightarrow> string" where
  "segmentFallbackCommand segment outputPath =
     ''ffmpeg -f lavfi -i color=c='' @ getSegmentColor (type_name (seg_type segment)) @
     '':s=1920x1080:d=1 -frames:v 1 '' @ dq @ outputPath @ dq"

text \<open>
  \<open>createSegmentImage\<close>: run the ImageMagick command; when it is rejected, run the
  ffmpeg command instead, whose rejection is not caught.
\<close>

definition createSegmentImage :: "world \<Rightarrow> ScriptSegment \<Rightarrow> string \<Rightarrow> nat \<Rightarrow> unit io" where
  "createSegmentImage w segment outputPath index tr =
     (case execAsync w 0 (segmentImageCommand segment outputPath index) tr of
        (tr1, Inr u) \<Rightarrow> (tr1, Inr u)
      | (tr1, Inl e) \<Rightarrow> execAsync w 0 (segmentFallbackCommand segment outputPath) tr1)"

definition assetPath :: "world \<Rightarrow> string \<Rightarrow> nat \<Rightarrow> string" where
  "assetPath w sid i = path_join w [outputDir w, sid @ ''_segment_'' @ toString i @ ''.png'']"

text \<open>The loop of \<open>prepareAssets\<close> from index \<open>i\<close> on; a rejection ends it.\<close>

fun prepareAssetsLoop ::
  "world \<Rightarrow> string \<Rightarrow> nat \<Rightarrow> ScriptSegment list \<Rightarrow> string list \<Rightarrow> string list io" where
  "prepareAssetsLoop w sid i [] assets tr = (tr, Inr assets)"
| "prepareAssetsLoop w sid i (segment # rest) assets tr =
     (case createSegmentImage w segment (assetPath w sid i) i tr of
        (tr1, Inl e) \<Rightarrow> (tr1, Inl e)
      | (tr1, Inr u) \<Rightarrow> prepareAssetsLoop w sid (i + 1) rest (assets @ [assetPath w sid i]) tr1)"

definition prepareAssets :: "world \<Rightarrow> GeneratedScript \<Rightarrow> string list io" where
  "prepareAssets w scr tr = prepareAssetsLoop w (script_id scr) 0 (segments scr) [] tr"

definition captionsPathOf :: "world \<Rightarrow> string \<Rightarrow> string" where
  "captionsPathOf w videoId = path_join w [outputDir w, videoId @ ''_captions.srt'']"

definition generateCaptions :: "world \<Rightarrow> GeneratedScript \<Rightarrow> string \<Rightarrow> string io" where
  "generateCaptions w scr videoId tr =
     (let captionsPath = captionsPathOf w videoId
      in (tr @ [WriteFile captionsPath (captionsContent scr)],
          if write_ok w captionsPath then Inr captionsPath else Inl (WriteFailed captionsPath)))"

record RenderOptions =
  r_voiceoverPath :: string
  r_assets :: "string list"
  r_captionsPath :: string
  r_outputPath :: string
  r_resolution :: "nat \<times> nat"
  r_framerate :: nat
  r_duration :: nat

text \<open>\<open>segmentDurations\<close>: \<open>assets.map((_, i) => 2)\<close>.\<close>

definition segmentDurations :: "string list \<Rightarrow> nat list" where
  "segmentDurations assets = map (\<lambda>_. 2) assets"

text \<open>
  The first loop of \<open>renderWithFFmpeg\<close> over the indices of \<open>assets\<close>; the state is
  \<open>inputs\<close> and \<open>filterComplex\<close>.
\<close>

definition imageInputsLoop :: "string list \<Rightarrow> string \<times> string" where
  "imageInputsLoop assets =
     foldl (\<lambda>(inputs, filterComplex) i.
              (inputs @ ''-loop 1 -t '' @ toString (segmentDurations assets ! i) @ '' -i '' @
                 dq @ assets ! i @ dq @ '' '',
               filterComplex @ ''['' @ toString i @ '':v]setpts=PTS-STARTPTS[v'' @ toString i @ ''];''))
       ([], []) [0 ..< length assets]"

text \<open>The second loop: \<open>concatInputs\<close>.\<close>

definition concatInputs :: "string list \<Rightarrow> string" where
  "concatInputs assets =
     foldl (\<lambda>acc i. acc @ ''[v'' @ toString i @ '']'') [] [0 ..< length assets]"

definition musicPathOf :: "world \<Rightarrow> string" where
  "musicPathOf w = path_join w [assetsDir w, ''music'', ''background.mp3'']"

text \<open>\<open>captionsPath.replace(/'/g, "'\\''")\<close>.\<close>

definition escapeQuotes :: "string \<Rightarrow> string" where
  "escapeQuotes p = concat (map (\<lambda>c. if c = CHR 0x27 then sq @ bslash @ sq @ sq else [c]) p)"

definition subtitlesFilter :: "string \<Rightarrow> string" where
  "subtitlesFilter captionsPath =
     '';[outv]subtitles='' @ sq @ escapeQuotes captionsPath @ sq @ '':force_style='' @ sq @
     ''FontName=Arial,FontSize=24,PrimaryColour=&HFFFFFF&'' @ sq @ ''[finalv]''"

text \<open>The two strings \<open>inputs\<close> and \<open>filterComplex\<close> as they stand before the final command is built.\<close>

definition renderInputs :: "world \<Rightarrow> RenderOptions \<Rightarrow> string" where
  "renderInputs w opts =
     (let assets = r_assets opts;
          inputs = fst (imageInputsLoop assets) @ ''-i '' @ dq @ r_voiceoverPath opts @ dq @ '' ''
      in if access_ok w (musicPathOf w) then inputs @ ''-i '' @ dq @ musicPathOf w @ dq @ '' ''
         else inputs)"

definition renderFilterComplex :: "world \<Rightarrow> RenderOptions \<Rightarrow> string" where
  "renderFilterComplex w opts =
     (let assets = r_assets opts;
          n = length assets;
          filterComplex = snd (imageInputsLoop assets) @ concatInputs assets @
            ''concat=n='' @ toString n @ '':v=1:a=0[outv];'';
          filterComplex2 =
            (if access_ok w (musicPathOf w)
             then filterComplex @
                  '';['' @ toString n @ '':a]volume=0.3[music];['' @ toString (n + 1) @
                  '':a]volume=0.1[bg];[music][bg]amix=inputs=2:duration=longest[aout]''
             else filterComplex @ ''['' @ toString n @ '':a]volume=1.0[aout]'')
      in filterComplex2 @ subtitlesFilter (r_captionsPath opts))"

definition renderCommand :: "world \<Rightarrow> RenderOptions \<Rightarrow> string" where
  "renderCommand w opts =
     ''ffmpeg '' @ renderInputs w opts @ '' '' @
     ''      -filter_complex '' @ dq @ renderFilterComplex w opts @ dq @ '' '' @
     ''      -map '' @ dq @ ''[finalv]'' @ dq @ '' -map '' @ dq @ ''[aout]'' @ dq @ '' '' @
     ''      -c:v libx264 -preset medium -crf 23 '' @
     ''      -c:a aac -b:a 192k '' @
     ''      -r '' @ toString (r_framerate opts) @ '' -s '' @ toString (fst (r_resolution opts)) @
       ''x'' @ toString (snd (r_resolution opts)) @ '' '' @
     ''      -pix_fmt yuv420p '' @
     ''      -shortest '' @
     ''      -y '' @ dq @ r_outputPath opts @ dq"

definition renderWithFFmpeg :: "world \<Rightarrow> RenderOptions \<Rightarrow> unit io" where
  "renderWithFFmpeg w opts tr = execAsync w 300000 (renderCommand w opts) tr"

definition videoOutputPath :: "world \<Rightarrow> string \<Rightarrow> string" where
  "videoOutputPath w videoId = path_join w [outputDir w, videoId @ ''_video.mp4'']"

definition renderOptionsOf :: "world \<Rightarrow> VideoGenerationOptions \<Rightarrow> string list \<Rightarrow> string \<Rightarrow> RenderOptions" where
  "renderOptionsOf w options assets captionsPath =
     \<lparr>r_voiceoverPath = voiceoverPath options, r_assets = assets, r_captionsPath = captionsPath,
      r_outputPath = videoOutputPath w (script_id (script options)),
      r_resolution = (case resolution options of None \<Rightarrow> (1920, 1080) | Some r \<Rightarrow> r),
      r_framerate = (case framerate options of None \<Rightarrow> 30 | Some f \<Rightarrow> f),
      r_duration = estimatedDuration (script options)\<rparr>"

text \<open>
  \<open>generateVideo\<close>: the four steps in order; the \<open>catch\<close> block logs and rethrows, so
  the first rejection is the result.
\<close>

definition generateVideo :: "world \<Rightarrow> VideoGenerationOptions \<Rightarrow> string io" where
  "generateVideo w options tr =
     (let videoId = script_id (script options);
          outputPath = videoOutputPath w videoId
      in case prepareAssets w (script options) tr of
           (tr1, Inl e) \<Rightarrow> (tr1, Inl e)
         | (tr1, Inr assets) \<Rightarrow>
        (case generateCaptions w (script options) videoId tr1 of
           (tr2, Inl e) \<Rightarrow> (tr2, Inl e)
         | (tr2, Inr captionsPath) \<Rightarrow>
        (case renderWithFFmpeg w (renderOptionsOf w options assets captionsPath) tr2 of
           (tr3, Inl e) \<Rightarrow> (tr3, Inl e)
         | (tr3, Inr u) \<Rightarrow>
        (case stat_size w outputPath of
           None \<Rightarrow> (tr3, Inl (StatFailed outputPath))
         | Some stats_size \<Rightarrow>
             if stats_size = 0 then (tr3, Inl EmptyVideo) else (tr3, Inr outputPath)))))"

section \<open>Thumbnail generator\<close>

record ThumbnailOptions =
  t_query :: string
  t_script :: GeneratedScript
  t_videoPath :: string
  t_style :: "string option"

record ColorScheme =
  primary :: string
  accent :: string
  overlay :: string

text \<open>
  \<open>createThumbnailTitle\<close>; \<open>r\<close> is the drawn index
  \<open>Math.floor(Math.random() * prefixes.length)\<close>, below 5.
\<close>

definition createThumbnailTitle :: "nat \<Rightarrow> string \<Rightarrow> string" where
  "createThumbnailTitle r query =
     (let prefixes = [''How to'', ''Complete Guide to'', ''Master'', ''Learn'', ''Discover''];
          suffix = prefixes ! r
      in if length query > 40 then take 40 query @ ''...'' else query)"

definition scheme_bold :: ColorScheme where
  "scheme_bold = \<lparr>primary = ''#FF0000'', accent = ''#FF5722'', overlay = ''rgba(255,0,0,0.2)''\<rparr>"

text \<open>\<open>getColorScheme\<close>: \<open>schemes[style] || schemes.bold\<close>.\<close>

definition getColorScheme :: "string \<Rightarrow> ColorScheme" where
  "getColorScheme style =
     (case map_of
        [(''minimal'', \<lparr>primary = ''#000000'', accent = ''#333333'', overlay = ''rgba(0,0,0,0.3)''\<rparr>),
         (''bold'', scheme_bold),
         (''contrast'', \<lparr>primary = ''#2196F3'', accent = ''#FFC107'', overlay = ''rgba(33,150,243,0.2)''\<rparr>),
         (''gradient'', \<lparr>primary = ''#9C27B0'', accent = ''#673AB7'', overlay = ''rgba(156,39,176,0.2)''\<rparr>)]
        style of
        Some c \<Rightarrow> c
      | None \<Rightarrow> scheme_bold)"

definition framePathOf :: "world \<Rightarrow> string" where
  "framePathOf w = path_join w [outputDir w, ''frame_'' @ toString (date_now w) @ ''.jpg'']"

definition extractFrameCommand :: "string \<Rightarrow> string \<Rightarrow> string" where
  "extractFrameCommand videoPath framePath =
     ''ffmpeg -i '' @ dq @ videoPath @ dq @ '' -ss 00:00:02 -vframes 1 -q:v 2 '' @ dq @ framePath @ dq"

definition extractVideoFrame :: "world \<Rightarrow> string \<Rightarrow> string io" where
  "extractVideoFrame w videoPath tr =
     (case execAsync w 0 (extractFrameCommand videoPath (framePathOf w)) tr of
        (tr1, Inl e) \<Rightarrow> (tr1, Inl e)
      | (tr1, Inr u) \<Rightarrow> (tr1, Inr (framePathOf w)))"

definition glyph_clapper :: string where
  "glyph_clapper = [CHR 0xF0, CHR 0x9F, CHR 0x8E, CHR 0xAC]"

definition glyph_play :: string where
  "glyph_play = [CHR 0xE2, CHR 0x96, CHR 0xB6]"

definition glyph_bullet :: string where
  "glyph_bullet = [CHR 0xE2, CHR 0x80, CHR 0xA2]"

definition overlayCommand :: "world \<Rightarrow> string \<Rightarrow> string \<Rightarrow> string \<Rightarrow> string \<Rightarrow> string" where
  "overlayCommand w backgroundPath outputPath query style =
     (let title = createThumbnailTitle (random_prefix w) query;
          colorScheme = getColorScheme style;
          width = toString (thumb_width w);
          height = toString (thumb_height w)
      in ''convert '' @ dq @ backgroundPath @ dq @ '' '' @
         ''      -resize '' @ width @ ''x'' @ height @ ''^ -gravity center -extent '' @
           width @ ''x'' @ height @ '' '' @
         ''      -fill '' @ dq @ overlay colorScheme @ dq @ '' -colorize 30% '' @
         ''      -fill white -font Arial -pointsize 60 -gravity north '' @
         ''      -annotate +0+100 '' @ dq @ glyph_clapper @ '' '' @ title @ dq @ '' '' @
         ''      -fill '' @ dq @ accent colorScheme @ dq @
           '' -font Arial-Bold -pointsize 90 -gravity center '' @
         ''      -annotate +0+0 '' @ dq @ query @ dq @ '' '' @
         ''      -fill white -font Arial -pointsize 36 -gravity south '' @
         ''      -annotate +0+100 '' @ dq @ glyph_play @ '' WATCH NOW '' @ glyph_bullet @
           '' COMPLETE GUIDE'' @ dq @ '' '' @
         ''      -fill '' @ dq @ accent colorScheme @ dq @ '' -strokewidth 2 -draw '' @ dq @
           ''rectangle 100,$(('' @ height @ ''-150)) $(('' @ width @ ''-100)),$(('' @ height @
           ''-120))'' @ dq @ '' '' @
         ''      '' @ dq @ outputPath @ dq)"

definition drawtextCommand :: "string \<Rightarrow> string \<Rightarrow> string \<Rightarrow> string" where
  "drawtextCommand backgroundPath outputPath query =
     ''ffmpeg -i '' @ dq @ backgroundPath @ dq @ '' '' @
     ''      -vf '' @ dq @ ''drawtext=text='' @ sq @ query @ sq @
       '':fontcolor=white:fontsize=60:box=1:boxcolor=black@0.5:boxborderw=5:x=(w-text_w)/2:y=(h-text_h)/2'' @
       dq @ '' '' @
     ''      -frames:v 1 '' @ dq @ outputPath @ dq"

definition createThumbnailWithFFmpeg :: "world \<Rightarrow> string \<Rightarrow> string \<Rightarrow> string \<Rightarrow> unit io" where
  "createThumbnailWithFFmpeg w backgroundPath outputPath query tr =
     execAsync w 0 (drawtextCommand backgroundPath outputPath query) tr"

text \<open>
  \<open>createThumbnailWithOverlay\<close>: the ImageMagick command; when it is rejected, the
  ffmpeg text overlay on the same background, whose rejection is not caught.
\<close>

definition createThumbnailWithOverlay ::
  "world \<Rightarrow> string \<Rightarrow> string \<Rightarrow> string \<Rightarrow> string \<Rightarrow> unit io" where
  "createThumbnailWithOverlay w backgroundPath outputPath query style tr =
     (case execAsync w 0 (overlayCommand w backgroundPath outputPath query style) tr of
        (tr1, Inr u) \<Rightarrow> (tr1, Inr u)
      | (tr1, Inl e) \<Rightarrow> createThumbnailWithFFmpeg w backgroundPath outputPath query tr1)"

text \<open>\<open>getRandomColor\<close>; the drawn index \<open>random_color w\<close> is below 6.\<close>

definition getRandomColor :: "world \<Rightarrow> string" where
  "getRandomColor w = [''red'', ''blue'', ''green'', ''purple'', ''orange'', ''teal''] ! random_color w"

definition fallbackCommand :: "world \<Rightarrow> string \<Rightarrow> string \<Rightarrow> string" where
  "fallbackCommand w outputPath query =
     (let color = getRandomColor w;
          text = take 50 query
      in ''ffmpeg -f lavfi -i color=c='' @ color @ '':s='' @ toString (thumb_width w) @ ''x'' @
           toString (thumb_height w) @ '':d=1 '' @
         ''      -vf '' @ dq @ ''drawtext=text='' @ sq @ text @ sq @
           '':fontcolor=white:fontsize=48:box=1:boxcolor=black@0.5:boxborderw=10:x=(w-text_w)/2:y=(h-text_h)/2'' @
           dq @ '' '' @
         ''      -frames:v 1 '' @ dq @ outputPath @ dq)"

definition generateFallbackThumbnail :: "world \<Rightarrow> string \<Rightarrow> string \<Rightarrow> unit io" where
  "generateFallbackThumbnail w outputPath query tr =
     execAsync w 0 (fallbackCommand w outputPath query) tr"

definition thumbnailPathOf :: "world \<Rightarrow> ThumbnailOptions \<Rightarrow> string" where
  "thumbnailPathOf w options = path_join w [outputDir w, script_id (t_script options) @ ''_thumbnail.png'']"

text \<open>
  The \<open>try\<close> block of \<open>generateThumbnail\<close>: extract a frame, overlay, remove the frame
  (a failure to remove is swallowed), then check the size of the thumbnail.
\<close>

definition thumbnailTry :: "world \<Rightarrow> ThumbnailOptions \<Rightarrow> string io" where
  "thumbnailTry w options tr =
     (let thumbnailPath = thumbnailPathOf w options;
          style = (case t_style options of None \<Rightarrow> ''bold'' | Some s \<Rightarrow> s)
      in case extractVideoFrame w (t_videoPath options) tr of
           (tr1, Inl e) \<Rightarrow> (tr1, Inl e)
         | (tr1, Inr framePath) \<Rightarrow>
        (case createThumbnailWithOverlay w framePath thumbnailPath (t_query options) style tr1 of
           (tr2, Inl e) \<Rightarrow> (tr2, Inl e)
         | (tr2, Inr u) \<Rightarrow>
        (case stat_size w thumbnailPath of
           None \<Rightarrow> (tr2 @ [Unlink framePath], Inl (StatFailed thumbnailPath))
         | Some stats_size \<Rightarrow>
             if stats_size = 0 then (tr2 @ [Unlink framePath], Inl EmptyThumbnail)
             else (tr2 @ [Unlink framePath], Inr thumbnailPath))))"

text \<open>
  \<open>generateThumbnail\<close>: any rejection inside the \<open>try\<close> block leads to
  \<open>generateFallbackThumbnail\<close>, whose rejection is not caught and whose output is
  returned without a look at its size.
\<close>

definition generateThumbnail :: "world \<Rightarrow> ThumbnailOptions \<Rightarrow> string io" where
  "generateThumbnail w options tr =
     (case thumbnailTry w options tr of
        (tr1, Inr p) \<Rightarrow> (tr1, Inr p)
      | (tr1, Inl e) \<Rightarrow>
          (case generateFallbackThumbnail w (thumbnailPathOf w options) (t_query options) tr1 of
             (tr2, Inl e2) \<Rightarrow> (tr2, Inl e2)
           | (tr2, Inr u) \<Rightarrow> (tr2, Inr (thumbnailPathOf w options))))"

section \<open>The audio mix of the specification, for comparison\<close>

text \<open>
  A mix plan gives each stream a level, here in tenths of the unit volume, written
  as a decimal with one place. Mixing attenuates input \<open>n\<close> (the narration) and
  input \<open>n + 1\<close> (the music) and mixes both for as long as the longest lasts; passing
  through applies a level to input \<open>n\<close> alone.
\<close>

definition level_text :: "nat \<Rightarrow> string" where
  "level_text tenths = toString (tenths div 10) @ ''.'' @ toString (tenths mod 10)"

definition spec_mix_filter :: "nat \<Rightarrow> nat \<Rightarrow> nat \<Rightarrow> string" where
  "spec_mix_filter n narrationLevel musicLevel =
     '';['' @ toString n @ '':a]volume='' @ level_text narrationLevel @ ''[music];['' @
     toString (n + 1) @ '':a]volume='' @ level_text musicLevel @
     ''[bg];[music][bg]amix=inputs=2:duration=longest[aout]''"

definition spec_passthrough_filter :: "nat \<Rightarrow> nat \<Rightarrow> string" where
  "spec_passthrough_filter n narrationLevel =
     ''['' @ toString n @ '':a]volume='' @ level_text narrationLevel @ ''[aout]''"

section \<open>Example environments and scripts\<close>

definition join_slash :: "string list \<Rightarrow> string" where
  "join_slash ps = foldr (\<lambda>p acc. if acc = [] then p else p @ ''/'' @ acc) ps []"

text \<open>
  An environment in which every command exits with status 0 after one second, every
  file has 1000 bytes, every write succeeds and there is no background music.
\<close>

definition world_ok :: world where
  "world_ok =
     \<lparr>outputDir = ''out'', assetsDir = ''assets'', thumb_width = 1280, thumb_height = 720,
      path_join = join_slash,
      run = (\<lambda>c. \<lparr>exit_ok = True, elapsed_ms = 1000\<rparr>),
      stat_size = (\<lambda>p. Some 1000),
      access_ok = (\<lambda>p. False),
      write_ok = (\<lambda>p. True),
      date_now = 1700000000000, random_prefix = 0, random_color = 0\<rparr>"

text \<open>The same with the background music present.\<close>

definition world_music :: world where
  "world_music = world_ok\<lparr>access_ok := (\<lambda>p. True)\<rparr>"

text \<open>Every command exits with status 0, and every file is left with zero bytes.\<close>

definition world_empty_files :: world where
  "world_empty_files = world_ok\<lparr>stat_size := (\<lambda>p. Some 0)\<rparr>"

text \<open>No external tool works: every command exits with a non-zero status.\<close>

definition world_no_tools :: world where
  "world_no_tools = world_ok\<lparr>run := (\<lambda>c. \<lparr>exit_ok = False, elapsed_ms = 10\<rparr>)\<rparr>"

text \<open>Every command exits with status 0, but only after 301 seconds.\<close>

definition world_slow :: world where
  "world_slow = world_ok\<lparr>run := (\<lambda>c. \<lparr>exit_ok = True, elapsed_ms = 301000\<rparr>)\<rparr>"

text \<open>ImageMagick is missing: the \<open>convert\<close> commands fail, the \<open>ffmpeg\<close> commands work.\<close>

definition world_no_convert :: world where
  "world_no_convert =
     world_ok\<lparr>run := (\<lambda>c. \<lparr>exit_ok = (take 7 c \<noteq> ''convert''), elapsed_ms = 10\<rparr>)\<rparr>"

text \<open>
  ffmpeg cannot synthesise a colour source (the commands starting
  \<open>ffmpeg -f lavfi\<close> fail); files are left with zero bytes.
\<close>

definition world_no_lavfi :: world where
  "world_no_lavfi =
     world_ok\<lparr>run := (\<lambda>c. \<lparr>exit_ok = (take 15 c \<noteq> ''ffmpeg -f lavfi''), elapsed_ms = 10\<rparr>),
              stat_size := (\<lambda>p. Some 0)\<rparr>"

text \<open>The video cannot be read (commands starting \<open>ffmpeg -i\<close> fail); files are left with zero bytes.\<close>

definition world_no_video :: world where
  "world_no_video =
     world_ok\<lparr>run := (\<lambda>c. \<lparr>exit_ok = (take 9 c \<noteq> ''ffmpeg -i''), elapsed_ms = 10\<rparr>),
              stat_size := (\<lambda>p. Some 0)\<rparr>"

text \<open>
  The renderer fails: the commands starting \<open>ffmpeg -loop\<close> and \<open>ffmpeg -i\<close> exit
  with a non-zero status.
\<close>

definition world_render_fails :: world where
  "world_render_fails =
     world_ok\<lparr>run := (\<lambda>c. \<lparr>exit_ok = (take 12 c \<noteq> ''ffmpeg -loop'' \<and> take 9 c \<noteq> ''ffmpeg -i''),
                          elapsed_ms = 10\<rparr>)\<rparr>"

text \<open>The renderer hangs: the commands starting \<open>ffmpeg -loop\<close> take 301 seconds.\<close>

definition world_render_slow :: world where
  "world_render_slow =
     world_ok\<lparr>run := (\<lambda>c. \<lparr>exit_ok = True,
                          elapsed_ms = (if take 12 c = ''ffmpeg -loop'' then 301000 else 10)\<rparr>)\<rparr>"

definition example_segment :: ScriptSegment where
  "example_segment =
     \<lparr>seg_type = Hook, startTime = 0, endTime = 4, duration = 4,
      seg_text = ''Have you ever wondered ai tools?'', visualHint = ''attention_grabber''\<rparr>"

definition example_script :: GeneratedScript where
  "example_script =
     \<lparr>script_id = ''id'', topic = ''ai tools'', title = ''ai tools - Complete Guide & Tutorial'',
      segments =
        [example_segment,
         \<lparr>seg_type = Cta, startTime = 4, endTime = 3725, duration = 3721,
          seg_text = ''Subscribe now'', visualHint = ''end_screen''\<rparr>],
      totalWords = 7, estimatedDuration = 3725\<rparr>"

definition empty_script :: GeneratedScript where
  "empty_script = example_script\<lparr>segments := [], totalWords := 0, estimatedDuration := 0\<rparr>"

definition example_video_options :: VideoGenerationOptions where
  "example_video_options =
     \<lparr>script = example_script, voiceoverPath = ''out/voice.mp3'', resolution = None,
      framerate = None\<rparr>"

definition example_thumbnail_options :: ThumbnailOptions where
  "example_thumbnail_options =
     \<lparr>t_query = ''ai tools'', t_script = example_script, t_videoPath = ''out/id_video.mp4'',
      t_style = None\<rparr>"

section \<open>Properties of the timeline\<close>

lemma calc_int: "calculateSegmentDuration n = (2 * n + 4) div 5"
proof -
  have "real n / 2.5 = of_int (2 * int n) / of_int 5" by simp
  then have "\<lceil>real n / 2.5\<rceil> = - (- (2 * int n) div 5)"
    by (simp only: ceiling_divide_eq_div)
  also have "\<dots> = (2 * int n + 4) div 5" by presburger
  finally have "nat \<lceil>real n / 2.5\<rceil> = nat ((2 * int n + 4) div 5)" by simp
  also have "\<dots> = (2 * n + 4) div 5"
    by (simp add: nat_div_distrib nat_add_distrib nat_mult_distrib)
  finally show ?thesis by (simp add: calculateSegmentDuration_def)
qed

lemma length_splitBy: "length (splitBy P s) = Suc (length (filter P s))"
  by (induction s) (auto split: list.splits)

lemma wordCount_spaces: "wordCount t = Suc (length (filter (\<lambda>c. c = CHR '' '') t))"
  by (simp add: wordCount_def split_space_def length_splitBy)

lemma splitBy_cong:
  "(\<And>c. c \<in> set t \<Longrightarrow> P c = Q c) \<Longrightarrow> splitBy P t = splitBy Q t"
  by (induction t) auto

lemma single_spaced_tokens:
  assumes "\<forall>c \<in> set t. is_whitespace c \<longrightarrow> c = CHR '' ''"
    and "[] \<notin> set (split_space t)"
  shows "whitespace_tokens t = split_space t"
proof -
  have "splitBy is_whitespace t = splitBy (\<lambda>c. c = CHR '' '') t"
    using assms(1) by (intro splitBy_cong) (auto simp: is_whitespace_def)
  then show ?thesis
    using assms(2) by (auto simp: whitespace_tokens_def split_space_def filter_id_conv)
qed

lemma wordCount_words: "wordCount (concat (replicate k ''w '') @ ''w'') = Suc k"
  by (induction k) (simp_all add: wordCount_spaces)

lemma laid_out_append:
  "laid_out t (xs @ ys) T = (\<exists>m. laid_out t xs m \<and> laid_out m ys T)"
  by (induction xs arbitrary: t) auto

lemma laid_out_push:
  assumes "laid_out t (fst st) (snd st)"
  shows "laid_out t (fst (pushSegment st ty txt h)) (snd (pushSegment st ty txt h))"
  using assms by (auto simp: pushSegment_def Let_def laid_out_append)

lemma laid_out_pushExplanation:
  "laid_out t (fst st) (snd st) \<Longrightarrow>
   laid_out t (fst (pushExplanation st i ps)) (snd (pushExplanation st i ps))"
  by (induction st i ps rule: pushExplanation.induct) (auto intro: laid_out_push)

lemma texts_push:
  "map seg_text (fst (pushSegment st ty txt h)) = map seg_text (fst st) @ [txt]"
  by (simp add: pushSegment_def Let_def)

lemma texts_pushExplanation:
  "map seg_text (fst (pushExplanation st i ps)) = map seg_text (fst st) @ ps"
  by (induction st i ps rule: pushExplanation.induct) (auto simp: texts_push)

lemma types_push:
  "map seg_type (fst (pushSegment st ty txt h)) = map seg_type (fst st) @ [ty]"
  by (simp add: pushSegment_def Let_def)

lemma types_pushExplanation:
  "map seg_type (fst (pushExplanation st i ps)) =
   map seg_type (fst st) @ replicate (length ps) Explanation"
  by (induction st i ps rule: pushExplanation.induct)
     (auto simp: types_push replicate_append_same)

lemma generateScript_laid_out:
  "laid_out 0 (segments (generateScript q u hook context expl summary cta))
     (estimatedDuration (generateScript q u hook context expl summary cta))"
  unfolding generateScript_def Let_def
  by (simp add: laid_out_push laid_out_pushExplanation)

lemma generateScript_texts:
  "map seg_text (segments (generateScript q u hook context expl summary cta)) =
   hook # context # expl @ [summary, cta]"
  unfolding generateScript_def Let_def
  by (simp add: texts_push texts_pushExplanation)

lemma generateScript_types:
  "map seg_type (segments (generateScript q u hook context expl summary cta)) =
   Hook # Context # replicate (length expl) Explanation @ [Summary, Cta]"
  unfolding generateScript_def Let_def
  by (simp add: types_push types_pushExplanation)

lemma laid_out_nth:
  "laid_out t ss T \<Longrightarrow> i < length ss \<Longrightarrow>
   duration (ss ! i) = calculateSegmentDuration (wordCount (seg_text (ss ! i))) \<and>
   endTime (ss ! i) = startTime (ss ! i) + duration (ss ! i)"
  by (induction ss arbitrary: t i) (auto simp: nth_Cons split: nat.splits)

lemma laid_out_first: "laid_out t ss T \<Longrightarrow> ss \<noteq> [] \<Longrightarrow> startTime (ss ! 0) = t"
  by (cases ss) auto

lemma laid_out_next:
  "laid_out t ss T \<Longrightarrow> Suc i < length ss \<Longrightarrow> endTime (ss ! i) = startTime (ss ! Suc i)"
proof (induction ss arbitrary: t i)
  case Nil then show ?case by simp
next
  case (Cons s ss)
  show ?case
  proof (cases i)
    case 0
    with Cons.prems show ?thesis by (cases ss) auto
  next
    case (Suc j)
    with Cons show ?thesis by auto
  qed
qed

lemma laid_out_last: "laid_out t ss T \<Longrightarrow> ss \<noteq> [] \<Longrightarrow> endTime (last ss) = T"
  by (induction ss arbitrary: t) (auto split: if_splits)

lemma laid_out_total: "laid_out t ss T \<Longrightarrow> T = t + sum_list (map duration ss)"
proof (induction ss arbitrary: t)
  case Nil then show ?case by simp
next
  case (Cons s ss)
  from Cons.prems have "laid_out (endTime s) ss T" and "endTime s = t + duration s" by auto
  with Cons.IH [of "endTime s"] show ?case by simp
qed

lemma laid_out_starts:
  "laid_out t ss T \<Longrightarrow> i < length ss \<Longrightarrow>
   startTime (ss ! i) = t + sum_list (map duration (take i ss))"
proof (induction ss arbitrary: t i)
  case Nil then show ?case by simp
next
  case (Cons s ss)
  show ?case
  proof (cases i)
    case 0 with Cons.prems show ?thesis by simp
  next
    case (Suc j)
    from Cons.prems have l: "laid_out (endTime s) ss T" and e: "endTime s = t + duration s" by auto
    from Cons.prems Suc have "j < length ss" by simp
    from Cons.IH [OF l this] e Suc show ?thesis by simp
  qed
qed


lemma generateScript_example:
  assumes "map wordCount (hook # context # expl @ [summary, cta]) = [8, 30, 40, 45, 12, 10]"
  shows "map duration (segments (generateScript q u hook context expl summary cta)) = [4, 12, 16, 18, 5, 4]
    \<and> map startTime (segments (generateScript q u hook context expl summary cta)) = [0, 4, 16, 32, 50, 55]
    \<and> map endTime (segments (generateScript q u hook context expl summary cta)) = [4, 16, 32, 50, 55, 59]
    \<and> estimatedDuration (generateScript q u hook context expl summary cta) = 59"
proof -
  from assms have "length (map wordCount (hook # context # expl @ [summary, cta])) = 6" by simp
  then have "length expl = 2" by simp
  then obtain e1 e2 where e: "expl = [e1, e2]"
    by (cases expl; cases "tl expl"; cases "tl (tl expl)") auto
  with assms have wc: "wordCount hook = 8" "wordCount context = 30" "wordCount e1 = 40"
    "wordCount e2 = 45" "wordCount summary = 12" "wordCount cta = 10" by simp_all
  show ?thesis
    unfolding e generateScript_def Let_def
    by (simp add: pushSegment_def Let_def calc_int wc)
qed



text \<open>
  The layout of a generated script. The script holds one segment per text, in the
  order hook, context, explanation paragraphs, summary, call to action. Each
  segment lasts the ceiling of its word count over 2.5, where the word count is
  the one the code computes, the number of pieces \<open>text.split(' ')\<close> yields; that is
  the number of whitespace-separated words when the text's only whitespace is
  single spaces between non-empty words. The segments are laid out back to back
  from 0: each ends at its start plus its duration, starts at the sum of the
  durations before it and ends where the next one starts; the last one ends at the
  script's estimated duration, the sum of all durations. Word counts
  8, 30, 40, 45, 12, 10 give durations 4, 12, 16, 18, 5, 4, start offsets
  0, 4, 16, 32, 50, 55 and a total of 59 seconds.
\<close>

theorem timeline_layout:
  "let script = generateScript query uuid hook context explanation summary cta;
       segs = segments script;
       texts = hook # context # explanation @ [summary, cta]
   in map seg_text segs = texts
    \<and> (\<forall>i < length segs.
          duration (segs ! i) = nat \<lceil>real (wordCount (texts ! i)) / 2.5\<rceil>
        \<and> wordCount (texts ! i) = length (split_space (texts ! i))
        \<and> wordCount (texts ! i) = Suc (length (filter (\<lambda>c. c = CHR '' '') (texts ! i)))
        \<and> ((\<forall>c \<in> set (texts ! i). is_whitespace c \<longrightarrow> c = CHR '' '') \<and>
            [] \<notin> set (split_space (texts ! i)) \<longrightarrow>
            wordCount (texts ! i) = length (whitespace_tokens (texts ! i)))
        \<and> endTime (segs ! i) = startTime (segs ! i) + duration (segs ! i)
        \<and> startTime (segs ! i) = sum_list (map duration (take i segs)))
    \<and> startTime (segs ! 0) = 0
    \<and> (\<forall>i. Suc i < length segs \<longrightarrow> endTime (segs ! i) = startTime (segs ! Suc i))
    \<and> endTime (last segs) = estimatedDuration script
    \<and> estimatedDuration script = sum_list (map duration segs)
    \<and> (map wordCount texts = [8, 30, 40, 45, 12, 10] \<longrightarrow>
          map duration segs = [4, 12, 16, 18, 5, 4]
        \<and> map startTime segs = [0, 4, 16, 32, 50, 55]
        \<and> map endTime segs = [4, 16, 32, 50, 55, 59]
        \<and> estimatedDuration script = 59)"
proof -
  define script where "script = generateScript query uuid hook context explanation summary cta"
  define segs where "segs = segments script"
  define texts where "texts = hook # context # explanation @ [summary, cta]"
  have lo: "laid_out 0 segs (estimatedDuration script)"
    unfolding segs_def script_def by (rule generateScript_laid_out)
  have tx: "map seg_text segs = texts"
    unfolding segs_def script_def texts_def by (rule generateScript_texts)
  then have ne: "segs \<noteq> []" by (auto simp: texts_def)
  have per: "duration (segs ! i) = nat \<lceil>real (wordCount (texts ! i)) / 2.5\<rceil>
        \<and> wordCount (texts ! i) = length (split_space (texts ! i))
        \<and> wordCount (texts ! i) = Suc (length (filter (\<lambda>c. c = CHR '' '') (texts ! i)))
        \<and> ((\<forall>c \<in> set (texts ! i). is_whitespace c \<longrightarrow> c = CHR '' '') \<and>
            [] \<notin> set (split_space (texts ! i)) \<longrightarrow>
            wordCount (texts ! i) = length (whitespace_tokens (texts ! i)))
        \<and> endTime (segs ! i) = startTime (segs ! i) + duration (segs ! i)
        \<and> startTime (segs ! i) = sum_list (map duration (take i segs))" if i: "i < length segs" for i
  proof -
    from tx i have t: "texts ! i = seg_text (segs ! i)" by (metis nth_map)
    from laid_out_nth [OF lo i] have d: "duration (segs ! i) = calculateSegmentDuration (wordCount (texts ! i))"
      and e: "endTime (segs ! i) = startTime (segs ! i) + duration (segs ! i)" by (simp_all add: t)
    from laid_out_starts [OF lo i] have s: "startTime (segs ! i) = sum_list (map duration (take i segs))" by simp
    show ?thesis
      using d e s by (simp add: calculateSegmentDuration_def wordCount_spaces [symmetric] single_spaced_tokens)
        (simp add: wordCount_def)
  qed
  have first: "startTime (segs ! 0) = 0" using laid_out_first [OF lo ne] .
  have nxt: "\<forall>i. Suc i < length segs \<longrightarrow> endTime (segs ! i) = startTime (segs ! Suc i)"
    using laid_out_next [OF lo] by blast
  have lst: "endTime (last segs) = estimatedDuration script" using laid_out_last [OF lo ne] .
  have tot: "estimatedDuration script = sum_list (map duration segs)"
    using laid_out_total [OF lo] by simp
  have ex: "map wordCount texts = [8, 30, 40, 45, 12, 10] \<longrightarrow>
          map duration segs = [4, 12, 16, 18, 5, 4]
        \<and> map startTime segs = [0, 4, 16, 32, 50, 55]
        \<and> map endTime segs = [4, 16, 32, 50, 55, 59]
        \<and> estimatedDuration script = 59"
    unfolding texts_def segs_def script_def by (rule impI) (rule generateScript_example)
  from tx per first nxt lst tot ex show ?thesis
    unfolding Let_def script_def [symmetric] segs_def [symmetric] texts_def [symmetric]
    by blast
qed

theorem timeline_layout_witness:
  "map wordCount
     [concat (replicate 7 ''w '') @ ''w'', concat (replicate 29 ''w '') @ ''w'',
      concat (replicate 39 ''w '') @ ''w'', concat (replicate 44 ''w '') @ ''w'',
      concat (replicate 11 ''w '') @ ''w'', concat (replicate 9 ''w '') @ ''w'']
     = [8, 30, 40, 45, 12, 10]
   \<and> (let script = generateScript ''topic'' ''id''
         (concat (replicate 7 ''w '') @ ''w'') (concat (replicate 29 ''w '') @ ''w'')
         [concat (replicate 39 ''w '') @ ''w'', concat (replicate 44 ''w '') @ ''w'']
         (concat (replicate 11 ''w '') @ ''w'') (concat (replicate 9 ''w '') @ ''w'')
       in map duration (segments script) = [4, 12, 16, 18, 5, 4]
        \<and> map startTime (segments script) = [0, 4, 16, 32, 50, 55]
        \<and> map endTime (segments script) = [4, 16, 32, 50, 55, 59]
        \<and> estimatedDuration script = 59)"
  using timeline_layout [of "''topic''" "''id''"
         "concat (replicate 7 ''w '') @ ''w''" "concat (replicate 29 ''w '') @ ''w''"
         "[concat (replicate 39 ''w '') @ ''w'', concat (replicate 44 ''w '') @ ''w'']"
         "concat (replicate 11 ''w '') @ ''w''" "concat (replicate 9 ''w '') @ ''w''"]
  by (simp add: Let_def wordCount_words)


text \<open>
  Claim C1 asks for a segment duration of \<open>ceil(wordCount / 2.5)\<close> with the words of
  the text counted by whitespace tokenization. The code does not do that for its
  own texts: the first call-to-action text of the generator has 22 words on two
  source lines, the second indented by six spaces, and \<open>split(' ')\<close> counts 27, so
  the segment lasts 11 seconds where 22 words give 9.
\<close>

theorem cta_word_count_divergence:
  "duration (last (segments (generateScript ''topic'' ''id'' ''h'' ''c'' [] ''s'' (generateCTA 0)))) = 11
   \<and> length (whitespace_tokens (generateCTA 0)) = 22
   \<and> calculateSegmentDuration (length (whitespace_tokens (generateCTA 0))) = 9"
  by (simp add: generateScript_def pushSegment_def Let_def calc_int wordCount_spaces
      whitespace_tokens_def is_whitespace_def LF_def)

section \<open>Properties of the caption track\<close>

lemma lt10_cases: "d < 10 \<Longrightarrow> d \<in> {0, 1, 2, 3, 4, 5, 6, 7, 8, 9::nat}"
  by auto

lemma digit_val_digit_char: "d < 10 \<Longrightarrow> digit_val (digit_char d) = d"
  by (drule lt10_cases) (auto simp: digit_val_def digit_char_def)

lemma is_digit_digit_char: "d < 10 \<Longrightarrow> is_digit (digit_char d)"
  by (simp add: is_digit_def digit_char_def del: set_simps)

lemma parse_nat_snoc: "parse_nat (s @ [c]) = 10 * parse_nat s + digit_val c"
  by (simp add: parse_nat_def)

lemma length_toString_lt10: "n < 10 \<Longrightarrow> length (toString n) = 1"
  by (subst toString.simps) simp

lemma length_toString_lt100: "n < 100 \<Longrightarrow> length (toString n) \<le> 2"
proof (cases "n < 10")
  case True
  then show ?thesis by (simp add: length_toString_lt10)
next
  case False
  assume "n < 100"
  then have "n div 10 < 10" by simp
  then have "length (toString (n div 10)) = 1" by (rule length_toString_lt10)
  with False show ?thesis by (subst toString.simps) simp
qed

lemma parse_nat_zeros: "parse_nat (replicate k CHR ''0'' @ s) = parse_nat s"
proof -
  have "foldl (\<lambda>n c. 10 * n + digit_val c) 0 (replicate k CHR ''0'') = 0"
    by (induction k) (simp_all add: digit_val_def)
  then show ?thesis by (simp add: parse_nat_def)
qed

lemma toString_0: "toString 0 = ''0''"
  by (subst toString.simps) (simp add: digit_char_def)

lemma parse_nat_toString: "parse_nat (toString n) = n"
proof (induction n rule: toString.induct)
  case (1 n)
  show ?case
  proof (cases "n < 10")
    case True
    then show ?thesis by (subst toString.simps) (simp add: parse_nat_def digit_val_digit_char)
  next
    case False
    with 1 have "parse_nat (toString (n div 10)) = n div 10" by simp
    with False show ?thesis
      by (subst toString.simps) (simp add: parse_nat_snoc digit_val_digit_char)
  qed
qed

lemma toString_digits: "\<forall>c \<in> set (toString n). is_digit c"
proof (induction n rule: toString.induct)
  case (1 n)
  show ?case
  proof (cases "n < 10")
    case True
    then show ?thesis by (subst toString.simps) (simp add: is_digit_digit_char)
  next
    case False
    with 1 have "\<forall>c \<in> set (toString (n div 10)). is_digit c" by simp
    with False show ?thesis
      by (subst toString.simps) (simp add: is_digit_digit_char)
  qed
qed

lemma parse_nat_padStart: "parse_nat (padStart w CHR ''0'' (toString n)) = n"
  by (simp add: padStart_def parse_nat_zeros parse_nat_toString)

lemma is_digit_zero: "is_digit CHR ''0''"
  by (simp add: is_digit_def)

lemma padStart_digits: "\<forall>c \<in> set (padStart w CHR ''0'' (toString n)). is_digit c"
  using toString_digits [of n] by (auto simp: padStart_def is_digit_zero)

lemma length_padStart: "length (padStart w c s) = max w (length s)"
  by (simp add: padStart_def)

lemma length_padStart2: "n < 100 \<Longrightarrow> length (padStart 2 c (toString n)) = 2"
  using length_toString_lt100 [of n] by (simp add: length_padStart)

lemma minutes_lt: "s mod 3600 div 60 < (100::nat)"
proof -
  have "s mod 3600 < 60 * 60" by simp
  then have "s mod 3600 div 60 < 60" by (rule less_mult_imp_div_less)
  then show ?thesis by simp
qed

lemma secs_lt: "s mod 60 < (100::nat)"
proof -
  have "s mod 60 < 60" by simp
  then show ?thesis by (rule less_trans) simp
qed

lemma hours_lt: "s < 360000 \<Longrightarrow> s div 3600 < (100::nat)"
  by (rule less_mult_imp_div_less) simp

lemma hms_sum: "3600 * (s div 3600) + 60 * (s mod 3600 div 60) + s mod 60 = (s::nat)"
proof -
  have "s mod 3600 mod 60 = s mod 60"
    by (rule mod_mod_cancel) simp
  then have "60 * (s mod 3600 div 60) + s mod 60 = s mod 3600"
    using mult_div_mod_eq [of 60 "s mod 3600"] by simp
  moreover have "3600 * (s div 3600) + s mod 3600 = s"
    by (rule mult_div_mod_eq)
  ultimately show ?thesis by linarith
qed

lemma padStart_zero: "padStart 3 CHR ''0'' ''0'' = ''000''"
  by (simp add: padStart_def numeral_2_eq_2)

lemma formatTime_eq:
  "formatTime s = padStart 2 CHR ''0'' (toString (s div 3600)) @ '':'' @
     padStart 2 CHR ''0'' (toString (s mod 3600 div 60)) @ '':'' @
     padStart 2 CHR ''0'' (toString (s mod 60)) @ '',000''"
  by (simp add: formatTime_def Let_def toString_0 padStart_zero)

lemma formatTime_shape:
  "\<exists>hh mm ss. formatTime s = hh @ '':'' @ mm @ '':'' @ ss @ '',000''
     \<and> 2 \<le> length hh \<and> length mm = 2 \<and> length ss = 2
     \<and> (\<forall>c \<in> set (hh @ mm @ ss). is_digit c)
     \<and> parse_nat hh = s div 3600 \<and> parse_nat mm = s mod 3600 div 60 \<and> parse_nat ss = s mod 60
     \<and> 3600 * parse_nat hh + 60 * parse_nat mm + parse_nat ss = s
     \<and> (s < 360000 \<longrightarrow> length hh = 2)"
proof -
  define hh where "hh = padStart 2 CHR ''0'' (toString (s div 3600))"
  define mm where "mm = padStart 2 CHR ''0'' (toString (s mod 3600 div 60))"
  define ss where "ss = padStart 2 CHR ''0'' (toString (s mod 60))"
  have f: "formatTime s = hh @ '':'' @ mm @ '':'' @ ss @ '',000''"
    unfolding hh_def mm_def ss_def by (rule formatTime_eq)
  have lh: "2 \<le> length hh" by (simp add: hh_def length_padStart)
  have lm: "length mm = 2" unfolding mm_def using minutes_lt by (rule length_padStart2)
  have ls: "length ss = 2" unfolding ss_def using secs_lt by (rule length_padStart2)
  have dg: "\<forall>c \<in> set (hh @ mm @ ss). is_digit c"
    using padStart_digits [of 2 "s div 3600"] padStart_digits [of 2 "s mod 3600 div 60"]
      padStart_digits [of 2 "s mod 60"] unfolding hh_def mm_def ss_def by auto
  have ph: "parse_nat hh = s div 3600" unfolding hh_def by (rule parse_nat_padStart)
  have pm: "parse_nat mm = s mod 3600 div 60" unfolding mm_def by (rule parse_nat_padStart)
  have ps: "parse_nat ss = s mod 60" unfolding ss_def by (rule parse_nat_padStart)
  have ar: "3600 * parse_nat hh + 60 * parse_nat mm + parse_nat ss = s"
    unfolding ph pm ps by (rule hms_sum)
  have l2: "s < 360000 \<longrightarrow> length hh = 2"
    unfolding hh_def using hours_lt length_padStart2 by blast
  from f lh lm ls dg ph pm ps ar l2 show ?thesis by blast
qed

lemma captionsLoop_eq:
  "captionsLoop (c, k) segs =
   (c @ concat (map (\<lambda>i. spec_render_cue \<lparr>cue_index = k + i, cue_start = startTime (segs ! i),
               cue_end = endTime (segs ! i), cue_text = seg_text (segs ! i)\<rparr>) [0 ..< length segs]),
    k + length segs)"
proof (induction segs arbitrary: c k)
  case Nil
  then show ?case by simp
next
  case (Cons seg rest)
  have up: "[0 ..< length (seg # rest)] = 0 # map Suc [0 ..< length rest]"
    by (simp add: upt_conv_Cons map_Suc_upt del: upt_Suc)
  show ?case
    unfolding up by (simp add: Cons.IH spec_render_cue_def comp_def)
qed

lemma captionsContent_cues:
  "captionsContent scr = concat (map spec_render_cue (spec_cues (segments scr)))"
  by (simp add: captionsContent_def captionsLoop_eq spec_cues_def comp_def)


text \<open>
  Claim C2. For every script, the caption generator emits exactly one cue per
  segment, numbered from 1 in segment order, each with the start and end offsets
  and the text of its segment: the document it writes is the concatenation of the
  cues' blocks, each block the cue number, the line \<open>start --> end\<close>, the text and an
  empty line. A timestamp is hours, minutes and seconds as decimal digits, each
  zero-padded to two places, separated by colons, then a comma and three digits of
  milliseconds; its fields read back as the offset, and the hours field has exactly
  two digits for every offset under 100 hours.
\<close>

theorem caption_track:
  "let segs = segments scr; cues = spec_cues segs
   in length cues = length segs
    \<and> (\<forall>i < length segs.
          cue_index (cues ! i) = i + 1 \<and> cue_start (cues ! i) = startTime (segs ! i)
        \<and> cue_end (cues ! i) = endTime (segs ! i) \<and> cue_text (cues ! i) = seg_text (segs ! i))
    \<and> captionsContent scr = concat (map spec_render_cue cues)
    \<and> fst (generateCaptions w scr videoId tr) =
        tr @ [WriteFile (captionsPathOf w videoId) (concat (map spec_render_cue cues))]
    \<and> (\<forall>s. \<exists>hh mm ss. formatTime s = hh @ '':'' @ mm @ '':'' @ ss @ '',000''
          \<and> 2 \<le> length hh \<and> length mm = 2 \<and> length ss = 2
          \<and> (\<forall>c \<in> set (hh @ mm @ ss). is_digit c)
          \<and> parse_nat hh = s div 3600 \<and> parse_nat mm = s mod 3600 div 60
          \<and> parse_nat ss = s mod 60
          \<and> 3600 * parse_nat hh + 60 * parse_nat mm + parse_nat ss = s
          \<and> (s < 360000 \<longrightarrow> length hh = 2))"
proof -
  have len: "length (spec_cues (segments scr)) = length (segments scr)"
    by (simp add: spec_cues_def)
  have nth: "\<forall>i < length (segments scr).
      cue_index (spec_cues (segments scr) ! i) = i + 1
    \<and> cue_start (spec_cues (segments scr) ! i) = startTime (segments scr ! i)
    \<and> cue_end (spec_cues (segments scr) ! i) = endTime (segments scr ! i)
    \<and> cue_text (spec_cues (segments scr) ! i) = seg_text (segments scr ! i)"
    by (simp add: spec_cues_def)
  have wr: "fst (generateCaptions w scr videoId tr) =
      tr @ [WriteFile (captionsPathOf w videoId) (concat (map spec_render_cue (spec_cues (segments scr))))]"
    by (simp add: generateCaptions_def Let_def captionsContent_cues)
  from len nth captionsContent_cues [of scr] wr formatTime_shape show ?thesis
    unfolding Let_def by blast
qed

theorem caption_track_witness:
  "captionsContent
     \<lparr>script_id = ''id'', topic = ''t'', title = ''t'',
      segments =
        [\<lparr>seg_type = Hook, startTime = 0, endTime = 4, duration = 4, seg_text = ''hello'',
          visualHint = ''a''\<rparr>,
         \<lparr>seg_type = Cta, startTime = 4, endTime = 3725, duration = 3721, seg_text = ''world'',
          visualHint = ''b''\<rparr>],
      totalWords = 2, estimatedDuration = 3725\<rparr>
   = ''1'' @ [LF] @ ''00:00:00,000 --> 00:00:04,000'' @ [LF] @ ''hello'' @ [LF, LF] @
     ''2'' @ [LF] @ ''00:00:04,000 --> 01:02:05,000'' @ [LF] @ ''world'' @ [LF, LF]
   \<and> (3725::nat) < 360000 \<and> length (formatTime 3725) = 12"
proof -
  let ?scr = "\<lparr>script_id = ''id'', topic = ''t'', title = ''t'',
      segments =
        [\<lparr>seg_type = Hook, startTime = 0, endTime = 4, duration = 4, seg_text = ''hello'',
          visualHint = ''a''\<rparr>,
         \<lparr>seg_type = Cta, startTime = 4, endTime = 3725, duration = 3721, seg_text = ''world'',
          visualHint = ''b''\<rparr>],
      totalWords = 2, estimatedDuration = 3725\<rparr>"
  note t = caption_track [of ?scr world_ok "''id''" "[]", unfolded Let_def]
  from t have "captionsContent ?scr = concat (map spec_render_cue (spec_cues (segments ?scr)))"
    by blast
  then have c: "captionsContent ?scr =
     ''1'' @ [LF] @ ''00:00:00,000 --> 00:00:04,000'' @ [LF] @ ''hello'' @ [LF, LF] @
     ''2'' @ [LF] @ ''00:00:04,000 --> 01:02:05,000'' @ [LF] @ ''world'' @ [LF, LF]"
    by (simp add: spec_cues_def spec_render_cue_def formatTime_eq padStart_def
        toString.simps digit_char_def upt_rec [of 0] upt_rec [of 1])
  from t obtain hh mm ss where "formatTime 3725 = hh @ '':'' @ mm @ '':'' @ ss @ '',000''"
    "length mm = 2" "length ss = 2" "(3725::nat) < 360000 \<longrightarrow> length hh = 2"
    by blast
  then have "length (formatTime 3725) = 12" by simp
  with c show ?thesis by simp
qed


section \<open>Properties of the thumbnail title\<close>

text \<open>
  Claim C10. For every query, the thumbnail title is the query itself when its
  length is at most 40, and otherwise its first 40 characters followed by three
  dots, so it is never longer than 43 characters; the prefix drawn at random is
  computed and never used, so neither the title nor the overlay command depends on
  the draw.
\<close>

theorem thumbnail_title:
  "createThumbnailTitle r query = (if length query \<le> 40 then query else take 40 query @ ''...'')
   \<and> length (createThumbnailTitle r query) \<le> 43
   \<and> createThumbnailTitle r query = createThumbnailTitle r' query
   \<and> overlayCommand (w\<lparr>random_prefix := r'\<rparr>) backgroundPath outputPath query style =
     overlayCommand w backgroundPath outputPath query style"
  by (simp add: createThumbnailTitle_def overlayCommand_def Let_def)

theorem thumbnail_title_witness:
  "createThumbnailTitle 3 ''how to learn programming fast in thirty days'' =
     ''how to learn programming fast in thirty '' @ ''...''
   \<and> createThumbnailTitle 0 ''AI tools for productivity'' = ''AI tools for productivity''"
  using thumbnail_title [of 3 "''how to learn programming fast in thirty days''"]
    thumbnail_title [of 0 "''AI tools for productivity''"]
  by simp


section \<open>Properties of the render graph\<close>

lemma toString_digit: "n < 10 \<Longrightarrow> toString n = [digit_char n]"
  by (subst toString.simps) simp

lemma toString_2: "toString 2 = ''2''"
  by (simp add: toString_digit digit_char_def)

lemma foldl_pair_concat:
  "foldl (\<lambda>(a, b) i. (a @ f i, b @ g i)) (a0, b0) xs =
   (a0 @ concat (map f xs), b0 @ concat (map g xs))"
  by (induction xs arbitrary: a0 b0) simp_all

lemma foldl_concat:
  "foldl (\<lambda>a i. a @ f i) a0 xs = a0 @ concat (map f xs)"
  by (induction xs arbitrary: a0) simp_all

lemma imageInputsLoop_eq:
  "imageInputsLoop assets =
   (concat (map (\<lambda>a. ''-loop 1 -t 2 -i '' @ dq @ a @ dq @ '' '') assets),
    concat (map (\<lambda>i. ''['' @ toString i @ '':v]setpts=PTS-STARTPTS[v'' @ toString i @ ''];'')
      [0 ..< length assets]))"
proof -
  have "map (\<lambda>i. ''-loop 1 -t '' @ toString (segmentDurations assets ! i) @ '' -i '' @
                 dq @ assets ! i @ dq @ '' '') [0 ..< length assets] =
        map (\<lambda>i. (\<lambda>a. ''-loop 1 -t 2 -i '' @ dq @ a @ dq @ '' '') (assets ! i)) [0 ..< length assets]"
    by (rule map_cong) (simp_all add: segmentDurations_def toString_2)
  also have "\<dots> = map (\<lambda>a. ''-loop 1 -t 2 -i '' @ dq @ a @ dq @ '' '') assets"
    by (rule nth_equalityI) simp_all
  finally show ?thesis
    unfolding imageInputsLoop_def foldl_pair_concat by simp
qed

lemma concatInputs_eq:
  "concatInputs assets = concat (map (\<lambda>i. ''[v'' @ toString i @ '']'') [0 ..< length assets])"
  unfolding concatInputs_def foldl_concat by simp

lemma toString_small:
  "toString 0 = ''0''" "toString 1 = ''1''" "toString (Suc 0) = ''1''" "toString 2 = ''2''"
  "toString (Suc (Suc 0)) = ''2''" "toString 3 = ''3''"
  by (simp_all add: toString_digit digit_char_def)

lemma level_text_values:
  "level_text 3 = ''0.3''" "level_text 1 = ''0.1''" "level_text (Suc 0) = ''0.1''"
  "level_text 10 = ''1.0''"
  by (simp_all add: level_text_def toString_digit digit_char_def)

lemma execAsync_0:
  "execAsync w 0 c tr = (tr @ [Exec c], if exit_ok (run w c) then Inr () else Inl (ExecFailed c))"
  by (simp add: execAsync_def)

lemma createSegmentImage_eq:
  "createSegmentImage w seg out i tr =
   (if exit_ok (run w (segmentImageCommand seg out i))
    then (tr @ [Exec (segmentImageCommand seg out i)], Inr ())
    else (tr @ [Exec (segmentImageCommand seg out i), Exec (segmentFallbackCommand seg out)],
          if exit_ok (run w (segmentFallbackCommand seg out)) then Inr ()
          else Inl (ExecFailed (segmentFallbackCommand seg out))))"
  by (simp add: createSegmentImage_def execAsync_0)

lemma prepareAssetsLoop_assets:
  "prepareAssetsLoop w sid i segs acc tr = (tr', Inr as) \<Longrightarrow>
   as = acc @ map (assetPath w sid) [i ..< i + length segs]"
proof (induction segs arbitrary: i acc tr)
  case Nil
  then show ?case by simp
next
  case (Cons seg rest)
  from Cons.prems obtain tr1 where
    "prepareAssetsLoop w sid (i + 1) rest (acc @ [assetPath w sid i]) tr1 = (tr', Inr as)"
    by (auto split: prod.splits sum.splits)
  from Cons.IH [OF this]
  have "as = (acc @ [assetPath w sid i]) @ map (assetPath w sid) [i + 1 ..< i + 1 + length rest]" .
  moreover have "[i ..< i + length (seg # rest)] = i # [i + 1 ..< i + 1 + length rest]"
    by (simp add: upt_conv_Cons del: upt_Suc)
  ultimately show ?case by simp
qed

lemma prepareAssets_assets:
  "prepareAssets w scr tr = (tr', Inr as) \<Longrightarrow>
   as = map (assetPath w (script_id scr)) [0 ..< length (segments scr)]"
  unfolding prepareAssets_def by (drule prepareAssetsLoop_assets) simp

lemma renderInputs_eq:
  "renderInputs w opts =
     concat (map (\<lambda>a. ''-loop 1 -t 2 -i '' @ dq @ a @ dq @ '' '') (r_assets opts)) @
     ''-i '' @ dq @ r_voiceoverPath opts @ dq @ '' '' @
     (if access_ok w (musicPathOf w) then ''-i '' @ dq @ musicPathOf w @ dq @ '' '' else [])"
  by (simp add: renderInputs_def Let_def imageInputsLoop_eq)

lemma renderFilterComplex_eq:
  "renderFilterComplex w opts =
     concat (map (\<lambda>i. ''['' @ toString i @ '':v]setpts=PTS-STARTPTS[v'' @ toString i @ ''];'')
       [0 ..< length (r_assets opts)]) @
     concat (map (\<lambda>i. ''[v'' @ toString i @ '']'') [0 ..< length (r_assets opts)]) @
     ''concat=n='' @ toString (length (r_assets opts)) @ '':v=1:a=0[outv];'' @
     (if access_ok w (musicPathOf w) then spec_mix_filter (length (r_assets opts)) 3 1
      else spec_passthrough_filter (length (r_assets opts)) 10) @
     subtitlesFilter (r_captionsPath opts)"
  by (simp add: renderFilterComplex_def Let_def imageInputsLoop_eq concatInputs_eq
      spec_mix_filter_def spec_passthrough_filter_def level_text_values)

lemma renderCommand_duration:
  "renderCommand w (opts\<lparr>r_duration := d\<rparr>) = renderCommand w opts"
  by (simp add: renderCommand_def renderInputs_def renderFilterComplex_def)

lemma renderWithFFmpeg_eq:
  "renderWithFFmpeg w opts tr =
   (tr @ [Exec (renderCommand w opts)],
    if 300000 < elapsed_ms (run w (renderCommand w opts))
    then Inl (ExecTimeout (renderCommand w opts))
    else if exit_ok (run w (renderCommand w opts)) then Inr ()
    else Inl (ExecFailed (renderCommand w opts)))"
  by (simp add: renderWithFFmpeg_def execAsync_def)

lemma createSegmentImage_trace:
  "fst (createSegmentImage w seg out i tr) = tr @ fst (createSegmentImage w seg out i [])"
  by (simp add: createSegmentImage_eq)

lemma prepareAssetsLoop_trace:
  "prepareAssetsLoop w sid i segs acc tr = (tr', Inr as) \<Longrightarrow>
   tr' = tr @ concat (map (\<lambda>(k, seg). fst (createSegmentImage w seg (assetPath w sid k) k []))
                  (zip [i ..< i + length segs] segs))"
proof (induction segs arbitrary: i acc tr)
  case Nil
  then show ?case by simp
next
  case (Cons seg rest)
  obtain tr1 r where c: "createSegmentImage w seg (assetPath w sid i) i tr = (tr1, r)"
    by (cases "createSegmentImage w seg (assetPath w sid i) i tr")
  with Cons.prems have
    l: "prepareAssetsLoop w sid (i + 1) rest (acc @ [assetPath w sid i]) tr1 = (tr', Inr as)"
    by (auto split: sum.splits)
  from c have t1: "tr1 = tr @ fst (createSegmentImage w seg (assetPath w sid i) i [])"
    using createSegmentImage_trace [of w seg "assetPath w sid i" i tr] by simp
  have up: "[i ..< i + length (seg # rest)] = i # [i + 1 ..< i + 1 + length rest]"
    by (simp add: upt_conv_Cons del: upt_Suc)
  from Cons.IH [OF l] show ?case
    unfolding up t1 by simp
qed

lemma zip_upt_map:
  "map f (zip [0 ..< length xs] xs) = map (\<lambda>i. f (i, xs ! i)) [0 ..< length xs]"
  by (rule nth_equalityI) simp_all

lemma prepareAssets_trace:
  assumes "prepareAssets w scr tr = (tr', Inr as)"
  shows "tr' = tr @ concat (map (\<lambda>i. fst (createSegmentImage w (segments scr ! i)
                    (assetPath w (script_id scr) i) i [])) [0 ..< length (segments scr)])"
proof -
  from assms have "tr' = tr @ concat (map (\<lambda>(k, seg). fst (createSegmentImage w seg
        (assetPath w (script_id scr) k) k [])) (zip [0 ..< 0 + length (segments scr)] (segments scr)))"
    unfolding prepareAssets_def by (rule prepareAssetsLoop_trace)
  then show ?thesis by (simp add: zip_upt_map)
qed

lemma renderCommand_eq:
  "renderCommand w opts =
     ''ffmpeg '' @
     (concat (map (\<lambda>a. ''-loop 1 -t 2 -i '' @ dq @ a @ dq @ '' '') (r_assets opts)) @
      ''-i '' @ dq @ r_voiceoverPath opts @ dq @ '' '' @
      (if access_ok w (musicPathOf w) then ''-i '' @ dq @ musicPathOf w @ dq @ '' '' else [])) @
     '' '' @
     ''      -filter_complex '' @ dq @
     (concat (map (\<lambda>i. ''['' @ toString i @ '':v]setpts=PTS-STARTPTS[v'' @ toString i @ ''];'')
        [0 ..< length (r_assets opts)]) @
      concat (map (\<lambda>i. ''[v'' @ toString i @ '']'') [0 ..< length (r_assets opts)]) @
      ''concat=n='' @ toString (length (r_assets opts)) @ '':v=1:a=0[outv];'' @
      (if access_ok w (musicPathOf w) then spec_mix_filter (length (r_assets opts)) 3 1
       else spec_passthrough_filter (length (r_assets opts)) 10) @
      subtitlesFilter (r_captionsPath opts)) @
     dq @ '' '' @
     ''      -map '' @ dq @ ''[finalv]'' @ dq @ '' -map '' @ dq @ ''[aout]'' @ dq @ '' '' @
     ''      -c:v libx264 -preset medium -crf 23 '' @
     ''      -c:a aac -b:a 192k '' @
     ''      -r '' @ toString (r_framerate opts) @ '' -s '' @ toString (fst (r_resolution opts)) @
       ''x'' @ toString (snd (r_resolution opts)) @ '' '' @
     ''      -pix_fmt yuv420p '' @
     ''      -shortest '' @
     ''      -y '' @ dq @ r_outputPath opts @ dq"
  unfolding renderCommand_def renderInputs_eq renderFilterComplex_eq ..

text \<open>
  Claim C5. Two compilations of the render graph from the same options (assets,
  voice-over, caption path, output path, resolution, frame rate) in two
  environments that agree on whether the background music is present, and on its
  path when it is, yield the same input list, the same filter graph and the same
  command, whatever else differs between the environments.
\<close>

theorem render_graph_deterministic:
  assumes "access_ok w1 (musicPathOf w1) = access_ok w2 (musicPathOf w2)"
    and "access_ok w1 (musicPathOf w1) \<longrightarrow> musicPathOf w1 = musicPathOf w2"
  shows "renderInputs w1 opts = renderInputs w2 opts
    \<and> renderFilterComplex w1 opts = renderFilterComplex w2 opts
    \<and> renderCommand w1 opts = renderCommand w2 opts
    \<and> fst (renderWithFFmpeg w1 opts tr) = fst (renderWithFFmpeg w2 opts tr)"
proof -
  from assms have i: "renderInputs w1 opts = renderInputs w2 opts"
    by (auto simp: renderInputs_def Let_def)
  from assms have f: "renderFilterComplex w1 opts = renderFilterComplex w2 opts"
    by (auto simp: renderFilterComplex_def Let_def)
  from i f have c: "renderCommand w1 opts = renderCommand w2 opts"
    by (simp add: renderCommand_def)
  from i f c show ?thesis
    by (simp add: renderWithFFmpeg_def execAsync_def)
qed

theorem render_graph_deterministic_witness:
  "access_ok world_music (musicPathOf world_music)
   \<and> renderCommand world_music
       \<lparr>r_voiceoverPath = ''out/voice.mp3'', r_assets = [''out/id_segment_0.png''],
        r_captionsPath = ''out/id_captions.srt'', r_outputPath = ''out/id_video.mp4'',
        r_resolution = (1920, 1080), r_framerate = 30, r_duration = 4\<rparr> =
     renderCommand
       (world_music\<lparr>run := run world_no_tools, stat_size := stat_size world_empty_files,
          date_now := 0, random_color := 3\<rparr>)
       \<lparr>r_voiceoverPath = ''out/voice.mp3'', r_assets = [''out/id_segment_0.png''],
        r_captionsPath = ''out/id_captions.srt'', r_outputPath = ''out/id_video.mp4'',
        r_resolution = (1920, 1080), r_framerate = 30, r_duration = 4\<rparr>"
  using render_graph_deterministic [of world_music
      "world_music\<lparr>run := run world_no_tools, stat_size := stat_size world_empty_files,
          date_now := 0, random_color := 3\<rparr>"
      "\<lparr>r_voiceoverPath = ''out/voice.mp3'', r_assets = [''out/id_segment_0.png''],
        r_captionsPath = ''out/id_captions.srt'', r_outputPath = ''out/id_video.mp4'',
        r_resolution = (1920, 1080), r_framerate = 30, r_duration = 4\<rparr>"]
  by (simp add: world_music_def world_ok_def musicPathOf_def)

text \<open>
  Claim C7. The background music is looked up at the path joined from the assets
  directory, \<open>music\<close> and \<open>background.mp3\<close>. When it is there, the command that is run
  takes it as one more input after the narration, and its filter graph attenuates
  the narration (input \<open>n\<close>, after the \<open>n\<close> images) to 0.3 and the music (input
  \<open>n + 1\<close>) to 0.1, which is lower, and mixes the two for the duration of the
  longest into the stream \<open>aout\<close>, which the command maps to the output. When it is
  not there, the command has the narration as its only audio input, passed at
  volume 1.0 into \<open>aout\<close>, and the absence is no error: the renderer is run all the
  same and its outcome is the result. In the first case the audio stage follows
  the video stage after two semicolons.
\<close>

theorem audio_mix_plan:
  "let n = length (r_assets opts);
       images = concat (map (\<lambda>a. ''-loop 1 -t 2 -i '' @ dq @ a @ dq @ '' '') (r_assets opts));
       narration = ''-i '' @ dq @ r_voiceoverPath opts @ dq @ '' '';
       music = ''-i '' @ dq @ musicPathOf w @ dq @ '' '';
       chains = concat (map (\<lambda>i. ''['' @ toString i @ '':v]setpts=PTS-STARTPTS[v'' @ toString i @ ''];'')
                  [0 ..< n]) @
                concat (map (\<lambda>i. ''[v'' @ toString i @ '']'') [0 ..< n]);
       video = chains @ ''concat=n='' @ toString n @ '':v=1:a=0[outv];'';
       command = (\<lambda>inputs filter.
         ''ffmpeg '' @ inputs @ '' '' @
         ''      -filter_complex '' @ dq @ filter @ dq @ '' '' @
         ''      -map '' @ dq @ ''[finalv]'' @ dq @ '' -map '' @ dq @ ''[aout]'' @ dq @ '' '' @
         ''      -c:v libx264 -preset medium -crf 23 '' @
         ''      -c:a aac -b:a 192k '' @
         ''      -r '' @ toString (r_framerate opts) @ '' -s '' @
           toString (fst (r_resolution opts)) @ ''x'' @ toString (snd (r_resolution opts)) @ '' '' @
         ''      -pix_fmt yuv420p '' @
         ''      -shortest '' @
         ''      -y '' @ dq @ r_outputPath opts @ dq);
       outcome = (\<lambda>c. if 300000 < elapsed_ms (run w c) then Inl (ExecTimeout c)
                      else if exit_ok (run w c) then Inr () else Inl (ExecFailed c));
       mixed = command (images @ narration @ music)
                 (video @ spec_mix_filter n 3 1 @ subtitlesFilter (r_captionsPath opts));
       alone = command (images @ narration)
                 (video @ spec_passthrough_filter n 10 @ subtitlesFilter (r_captionsPath opts))
   in musicPathOf w = path_join w [assetsDir w, ''music'', ''background.mp3'']
    \<and> (access_ok w (musicPathOf w) \<longrightarrow>
          renderInputs w opts = images @ narration @ music
        \<and> renderFilterComplex w opts =
            video @ spec_mix_filter n 3 1 @ subtitlesFilter (r_captionsPath opts)
        \<and> renderCommand w opts = mixed
        \<and> renderWithFFmpeg w opts tr = (tr @ [Exec mixed], outcome mixed))
    \<and> (\<not> access_ok w (musicPathOf w) \<longrightarrow>
          renderInputs w opts = images @ narration
        \<and> renderFilterComplex w opts =
            video @ spec_passthrough_filter n 10 @ subtitlesFilter (r_captionsPath opts)
        \<and> renderCommand w opts = alone
        \<and> renderWithFFmpeg w opts tr = (tr @ [Exec alone], outcome alone)
        \<and> (exit_ok (run w (renderCommand w opts)) \<and>
            elapsed_ms (run w (renderCommand w opts)) \<le> 300000 \<longrightarrow>
            renderWithFFmpeg w opts tr = (tr @ [Exec (renderCommand w opts)], Inr ())))
    \<and> spec_mix_filter n 3 1 =
        '';['' @ toString n @ '':a]volume=0.3[music];['' @ toString (n + 1) @
        '':a]volume=0.1[bg];[music][bg]amix=inputs=2:duration=longest[aout]''
    \<and> spec_passthrough_filter n 10 = ''['' @ toString n @ '':a]volume=1.0[aout]''
    \<and> (1::nat) < 3 \<and> (3::nat) < 10
    \<and> video @ spec_mix_filter n 3 1 =
        chains @ ''concat=n='' @ toString n @ '':v=1:a=0[outv];;['' @ toString n @
        '':a]volume=0.3[music];['' @ toString (n + 1) @
        '':a]volume=0.1[bg];[music][bg]amix=inputs=2:duration=longest[aout]''"
proof -
  define n where "n = length (r_assets opts)"
  define images where
    "images = concat (map (\<lambda>a. ''-loop 1 -t 2 -i '' @ dq @ a @ dq @ '' '') (r_assets opts))"
  define narration where "narration = ''-i '' @ dq @ r_voiceoverPath opts @ dq @ '' ''"
  define music where "music = ''-i '' @ dq @ musicPathOf w @ dq @ '' ''"
  define chains where
    "chains = concat (map (\<lambda>i. ''['' @ toString i @ '':v]setpts=PTS-STARTPTS[v'' @ toString i @ ''];'')
                  [0 ..< n]) @
                concat (map (\<lambda>i. ''[v'' @ toString i @ '']'') [0 ..< n])"
  define video where "video = chains @ ''concat=n='' @ toString n @ '':v=1:a=0[outv];''"
  define command where "command = (\<lambda>inputs filter.
         ''ffmpeg '' @ inputs @ '' '' @
         ''      -filter_complex '' @ dq @ filter @ dq @ '' '' @
         ''      -map '' @ dq @ ''[finalv]'' @ dq @ '' -map '' @ dq @ ''[aout]'' @ dq @ '' '' @
         ''      -c:v libx264 -preset medium -crf 23 '' @
         ''      -c:a aac -b:a 192k '' @
         ''      -r '' @ toString (r_framerate opts) @ '' -s '' @
           toString (fst (r_resolution opts)) @ ''x'' @ toString (snd (r_resolution opts)) @ '' '' @
         ''      -pix_fmt yuv420p '' @
         ''      -shortest '' @
         ''      -y '' @ dq @ r_outputPath opts @ dq)"
  define outcome where "outcome = (\<lambda>c. if 300000 < elapsed_ms (run w c) then Inl (ExecTimeout c)
                      else if exit_ok (run w c) then Inr () else Inl (ExecFailed c))"
  define subs where "subs = subtitlesFilter (r_captionsPath opts)"
  have cmd: "renderCommand w opts = command (renderInputs w opts) (renderFilterComplex w opts)"
    by (simp add: renderCommand_def command_def)
  have run: "renderWithFFmpeg w opts tr =
      (tr @ [Exec (renderCommand w opts)], outcome (renderCommand w opts))"
    by (simp add: renderWithFFmpeg_eq outcome_def)
  have mp: "musicPathOf w = path_join w [assetsDir w, ''music'', ''background.mp3'']"
    by (simp add: musicPathOf_def)
  have yes: "renderInputs w opts = images @ narration @ music
        \<and> renderFilterComplex w opts = video @ spec_mix_filter n 3 1 @ subs
        \<and> renderCommand w opts =
            command (images @ narration @ music) (video @ spec_mix_filter n 3 1 @ subs)
        \<and> renderWithFFmpeg w opts tr =
            (tr @ [Exec (command (images @ narration @ music) (video @ spec_mix_filter n 3 1 @ subs))],
             outcome (command (images @ narration @ music) (video @ spec_mix_filter n 3 1 @ subs)))"
    if a: "access_ok w (musicPathOf w)"
  proof -
    from a have i: "renderInputs w opts = images @ narration @ music"
      by (simp add: renderInputs_eq images_def narration_def music_def)
    from a have f: "renderFilterComplex w opts = video @ spec_mix_filter n 3 1 @ subs"
      by (simp add: renderFilterComplex_eq video_def chains_def n_def subs_def)
    from cmd run show ?thesis unfolding i f using i f by simp
  qed
  have no: "renderInputs w opts = images @ narration
        \<and> renderFilterComplex w opts = video @ spec_passthrough_filter n 10 @ subs
        \<and> renderCommand w opts =
            command (images @ narration) (video @ spec_passthrough_filter n 10 @ subs)
        \<and> renderWithFFmpeg w opts tr =
            (tr @ [Exec (command (images @ narration) (video @ spec_passthrough_filter n 10 @ subs))],
             outcome (command (images @ narration) (video @ spec_passthrough_filter n 10 @ subs)))
        \<and> (exit_ok (run w (renderCommand w opts)) \<and>
            elapsed_ms (run w (renderCommand w opts)) \<le> 300000 \<longrightarrow>
            renderWithFFmpeg w opts tr = (tr @ [Exec (renderCommand w opts)], Inr ()))"
    if a: "\<not> access_ok w (musicPathOf w)"
  proof -
    from a have i: "renderInputs w opts = images @ narration"
      by (simp add: renderInputs_eq images_def narration_def)
    from a have f: "renderFilterComplex w opts = video @ spec_passthrough_filter n 10 @ subs"
      by (simp add: renderFilterComplex_eq video_def chains_def n_def subs_def)
    have ok: "exit_ok (run w (renderCommand w opts)) \<and>
            elapsed_ms (run w (renderCommand w opts)) \<le> 300000 \<longrightarrow>
            renderWithFFmpeg w opts tr = (tr @ [Exec (renderCommand w opts)], Inr ())"
      by (simp add: renderWithFFmpeg_eq)
    from cmd run ok show ?thesis unfolding i f using i f by simp
  qed
  have m: "spec_mix_filter n 3 1 =
        '';['' @ toString n @ '':a]volume=0.3[music];['' @ toString (n + 1) @
        '':a]volume=0.1[bg];[music][bg]amix=inputs=2:duration=longest[aout]''"
    by (simp add: spec_mix_filter_def level_text_values)
  have p: "spec_passthrough_filter n 10 = ''['' @ toString n @ '':a]volume=1.0[aout]''"
    by (simp add: spec_passthrough_filter_def level_text_values)
  have v: "video @ spec_mix_filter n 3 1 =
        chains @ ''concat=n='' @ toString n @ '':v=1:a=0[outv];;['' @ toString n @
        '':a]volume=0.3[music];['' @ toString (n + 1) @
        '':a]volume=0.1[bg];[music][bg]amix=inputs=2:duration=longest[aout]''"
    by (simp add: video_def spec_mix_filter_def level_text_values)
  have lt: "(1::nat) < 3 \<and> (3::nat) < 10" by simp
  from mp yes no m p lt v show ?thesis
    unfolding Let_def n_def [symmetric] images_def [symmetric] narration_def [symmetric]
      music_def [symmetric] chains_def [symmetric] video_def [symmetric]
      command_def [symmetric] outcome_def [symmetric] subs_def [symmetric]
    by blast
qed

theorem audio_mix_plan_witness:
  "access_ok world_music (musicPathOf world_music)
   \<and> \<not> access_ok world_ok (musicPathOf world_ok)
   \<and> fst (renderWithFFmpeg world_music
       \<lparr>r_voiceoverPath = ''out/voice.mp3'', r_assets = [''out/id_segment_0.png''],
        r_captionsPath = ''out/id_captions.srt'', r_outputPath = ''out/id_video.mp4'',
        r_resolution = (1920, 1080), r_framerate = 30, r_duration = 4\<rparr> []) =
     [Exec (''ffmpeg -loop 1 -t 2 -i '' @ dq @ ''out/id_segment_0.png'' @ dq @
        '' -i '' @ dq @ ''out/voice.mp3'' @ dq @
        '' -i '' @ dq @ ''assets/music/background.mp3'' @ dq @ ''  '' @
        ''      -filter_complex '' @ dq @
        ''[0:v]setpts=PTS-STARTPTS[v0];[v0]concat=n=1:v=1:a=0[outv];'' @
        '';[1:a]volume=0.3[music];[2:a]volume=0.1[bg];[music][bg]amix=inputs=2:duration=longest[aout]'' @
        subtitlesFilter ''out/id_captions.srt'' @ dq @ '' '' @
        ''      -map '' @ dq @ ''[finalv]'' @ dq @ '' -map '' @ dq @ ''[aout]'' @ dq @ '' '' @
        ''      -c:v libx264 -preset medium -crf 23 '' @
        ''      -c:a aac -b:a 192k '' @
        ''      -r 30 -s 1920x1080 '' @
        ''      -pix_fmt yuv420p '' @
        ''      -shortest '' @
        ''      -y '' @ dq @ ''out/id_video.mp4'' @ dq)]
   \<and> renderWithFFmpeg world_ok
       \<lparr>r_voiceoverPath = ''out/voice.mp3'', r_assets = [''out/id_segment_0.png''],
        r_captionsPath = ''out/id_captions.srt'', r_outputPath = ''out/id_video.mp4'',
        r_resolution = (1920, 1080), r_framerate = 30, r_duration = 4\<rparr> [] =
     ([Exec (''ffmpeg -loop 1 -t 2 -i '' @ dq @ ''out/id_segment_0.png'' @ dq @
        '' -i '' @ dq @ ''out/voice.mp3'' @ dq @ ''  '' @
        ''      -filter_complex '' @ dq @
        ''[0:v]setpts=PTS-STARTPTS[v0];[v0]concat=n=1:v=1:a=0[outv];[1:a]volume=1.0[aout]'' @
        subtitlesFilter ''out/id_captions.srt'' @ dq @ '' '' @
        ''      -map '' @ dq @ ''[finalv]'' @ dq @ '' -map '' @ dq @ ''[aout]'' @ dq @ '' '' @
        ''      -c:v libx264 -preset medium -crf 23 '' @
        ''      -c:a aac -b:a 192k '' @
        ''      -r 30 -s 1920x1080 '' @
        ''      -pix_fmt yuv420p '' @
        ''      -shortest '' @
        ''      -y '' @ dq @ ''out/id_video.mp4'' @ dq)], Inr ())"
proof -
  let ?opts = "\<lparr>r_voiceoverPath = ''out/voice.mp3'', r_assets = [''out/id_segment_0.png''],
        r_captionsPath = ''out/id_captions.srt'', r_outputPath = ''out/id_video.mp4'',
        r_resolution = (1920, 1080), r_framerate = 30, r_duration = 4\<rparr>"
  have m: "access_ok world_music (musicPathOf world_music)"
    and n: "\<not> access_ok world_ok (musicPathOf world_ok)"
    by (simp_all add: world_music_def world_ok_def)
  have p: "musicPathOf world_music = ''assets/music/background.mp3''"
    by (simp add: musicPathOf_def world_music_def world_ok_def join_slash_def)
  have r: "run world_ok c = \<lparr>exit_ok = True, elapsed_ms = 1000\<rparr>" for c
    by (simp add: world_ok_def)
  note t1 = audio_mix_plan [where opts = "?opts" and w = world_music and tr = "[]",
      unfolded Let_def, THEN conjunct2, THEN conjunct1, THEN mp, OF m,
      THEN conjunct2, THEN conjunct2, THEN conjunct2]
  note t2 = audio_mix_plan [where opts = "?opts" and w = world_ok and tr = "[]",
      unfolded Let_def, THEN conjunct2, THEN conjunct2, THEN conjunct1, THEN mp, OF n,
      THEN conjunct2, THEN conjunct2, THEN conjunct2, THEN conjunct1]
  from t1 have a: "fst (renderWithFFmpeg world_music ?opts []) =
     [Exec (''ffmpeg -loop 1 -t 2 -i '' @ dq @ ''out/id_segment_0.png'' @ dq @
        '' -i '' @ dq @ ''out/voice.mp3'' @ dq @
        '' -i '' @ dq @ ''assets/music/background.mp3'' @ dq @ ''  '' @
        ''      -filter_complex '' @ dq @
        ''[0:v]setpts=PTS-STARTPTS[v0];[v0]concat=n=1:v=1:a=0[outv];'' @
        '';[1:a]volume=0.3[music];[2:a]volume=0.1[bg];[music][bg]amix=inputs=2:duration=longest[aout]'' @
        subtitlesFilter ''out/id_captions.srt'' @ dq @ '' '' @
        ''      -map '' @ dq @ ''[finalv]'' @ dq @ '' -map '' @ dq @ ''[aout]'' @ dq @ '' '' @
        ''      -c:v libx264 -preset medium -crf 23 '' @
        ''      -c:a aac -b:a 192k '' @
        ''      -r 30 -s 1920x1080 '' @
        ''      -pix_fmt yuv420p '' @
        ''      -shortest '' @
        ''      -y '' @ dq @ ''out/id_video.mp4'' @ dq)]"
    by (simp add: p spec_mix_filter_def level_text_values toString_small toString.simps
        digit_char_def)
  from t2 have b: "renderWithFFmpeg world_ok ?opts [] =
     ([Exec (''ffmpeg -loop 1 -t 2 -i '' @ dq @ ''out/id_segment_0.png'' @ dq @
        '' -i '' @ dq @ ''out/voice.mp3'' @ dq @ ''  '' @
        ''      -filter_complex '' @ dq @
        ''[0:v]setpts=PTS-STARTPTS[v0];[v0]concat=n=1:v=1:a=0[outv];[1:a]volume=1.0[aout]'' @
        subtitlesFilter ''out/id_captions.srt'' @ dq @ '' '' @
        ''      -map '' @ dq @ ''[finalv]'' @ dq @ '' -map '' @ dq @ ''[aout]'' @ dq @ '' '' @
        ''      -c:v libx264 -preset medium -crf 23 '' @
        ''      -c:a aac -b:a 192k '' @
        ''      -r 30 -s 1920x1080 '' @
        ''      -pix_fmt yuv420p '' @
        ''      -shortest '' @
        ''      -y '' @ dq @ ''out/id_video.mp4'' @ dq)], Inr ())"
    by (simp add: r spec_passthrough_filter_def level_text_values toString_small toString.simps
        digit_char_def)
  from m n a b show ?thesis by blast
qed

section \<open>Properties of video generation\<close>

lemma execAsync_render:
  "execAsync w 300000 c tr =
   (tr @ [Exec c],
    if 300000 < elapsed_ms (run w c) then Inl (ExecTimeout c)
    else if exit_ok (run w c) then Inr () else Inl (ExecFailed c))"
  by (simp add: execAsync_def)

lemma generateVideo_eq:
  assumes "prepareAssets w (script options) tr = (tr1, Inr assets)"
    and "generateCaptions w (script options) (script_id (script options)) tr1 = (tr2, Inr cp)"
  shows "generateVideo w options tr =
     (tr2 @ [Exec (renderCommand w (renderOptionsOf w options assets cp))],
      if 300000 < elapsed_ms (run w (renderCommand w (renderOptionsOf w options assets cp)))
      then Inl (ExecTimeout (renderCommand w (renderOptionsOf w options assets cp)))
      else if \<not> exit_ok (run w (renderCommand w (renderOptionsOf w options assets cp)))
      then Inl (ExecFailed (renderCommand w (renderOptionsOf w options assets cp)))
      else (case stat_size w (videoOutputPath w (script_id (script options))) of
              None \<Rightarrow> Inl (StatFailed (videoOutputPath w (script_id (script options))))
            | Some n \<Rightarrow> if n = 0 then Inl EmptyVideo
                        else Inr (videoOutputPath w (script_id (script options)))))"
  using assms
  by (simp add: generateVideo_def Let_def renderWithFFmpeg_def execAsync_render split: option.splits)

lemma generateVideo_success:
  assumes "snd (generateVideo w options tr) = Inr p"
  shows "p = videoOutputPath w (script_id (script options))
    \<and> (\<exists>n. 0 < n \<and> stat_size w p = Some n)"
  using assms
  by (auto simp: generateVideo_def Let_def split: prod.splits sum.splits option.splits if_splits)

text \<open>
  Claim C3. Once the assets and the captions are there, video generation runs the
  renderer exactly once, with a timeout of 300 seconds, and nothing after it. If
  the renderer runs longer than the timeout, or exits with a failure, that
  rejection is the result; if it exits successfully and the output file has zero
  bytes, the result is an error as well. Whenever video generation returns a path,
  it is the output path and the file there is not empty.
\<close>

theorem video_failure_terminal:
  assumes "prepareAssets w (script options) tr = (tr1, Inr assets)"
    and "generateCaptions w (script options) (script_id (script options)) tr1 = (tr2, Inr cp)"
  shows "let cmd = renderCommand w (renderOptionsOf w options assets cp);
             out = videoOutputPath w (script_id (script options))
         in (300000 < elapsed_ms (run w cmd) \<longrightarrow>
               generateVideo w options tr = (tr2 @ [Exec cmd], Inl (ExecTimeout cmd)))
          \<and> (elapsed_ms (run w cmd) \<le> 300000 \<and> \<not> exit_ok (run w cmd) \<longrightarrow>
               generateVideo w options tr = (tr2 @ [Exec cmd], Inl (ExecFailed cmd)))
          \<and> (elapsed_ms (run w cmd) \<le> 300000 \<and> exit_ok (run w cmd) \<and>
              stat_size w out = Some 0 \<longrightarrow>
               generateVideo w options tr = (tr2 @ [Exec cmd], Inl EmptyVideo))
          \<and> (\<forall>n. elapsed_ms (run w cmd) \<le> 300000 \<and> exit_ok (run w cmd) \<and>
                 stat_size w out = Some n \<and> 0 < n \<longrightarrow>
               generateVideo w options tr = (tr2 @ [Exec cmd], Inr out))
          \<and> (\<forall>p. snd (generateVideo w options tr) = Inr p \<longrightarrow>
                p = out \<and> (\<exists>n. 0 < n \<and> stat_size w p = Some n))"
  unfolding Let_def
  using generateVideo_eq [OF assms] generateVideo_success [of w options tr]
  by auto

lemma example_assets_ok:
  assumes "outputDir w = ''out''" and "path_join w = join_slash"
    and "\<And>seg out i. exit_ok (run w (segmentImageCommand seg out i))"
  shows "\<exists>tr1. prepareAssets w (script example_video_options) [] =
           (tr1, Inr [''out/id_segment_0.png'', ''out/id_segment_1.png''])"
  using assms
  by (simp add: prepareAssets_def example_video_options_def example_script_def
      createSegmentImage_eq assetPath_def join_slash_def toString_small)

lemma example_captions_ok:
  assumes "outputDir w = ''out''" and "path_join w = join_slash" and "write_ok w ''out/id_captions.srt''"
  shows "generateCaptions w (script example_video_options)
        (script_id (script example_video_options)) tr1 =
      (tr1 @ [WriteFile ''out/id_captions.srt'' (captionsContent example_script)],
       Inr ''out/id_captions.srt'')"
  using assms
  by (simp add: generateCaptions_def Let_def captionsPathOf_def join_slash_def
      example_video_options_def example_script_def)

lemma example_output_path:
  assumes "outputDir w = ''out''" and "path_join w = join_slash"
  shows "videoOutputPath w (script_id (script example_video_options)) = ''out/id_video.mp4''"
  using assms
  by (simp add: videoOutputPath_def join_slash_def example_video_options_def example_script_def)

lemma take_convert:
  "take 12 (segmentImageCommand seg out i) = ''convert -siz''"
  "take 9 (segmentImageCommand seg out i) = ''convert -''"
  by (simp_all add: segmentImageCommand_def Let_def)

lemma take_render:
  "take 12 (renderCommand w (renderOptionsOf w' opts (a # as) cp)) = ''ffmpeg -loop''"
  by (simp add: renderCommand_def renderInputs_eq renderOptionsOf_def)

lemma world_ok_fields:
  "outputDir world_ok = ''out''" "path_join world_ok = join_slash" "write_ok world_ok p"
  "run world_ok c = \<lparr>exit_ok = True, elapsed_ms = 1000\<rparr>" "stat_size world_ok p = Some 1000"
  "access_ok world_ok p = False" "assetsDir world_ok = ''assets''"
  "thumb_width world_ok = 1280" "thumb_height world_ok = 720"
  "date_now world_ok = 1700000000000" "random_prefix world_ok = 0" "random_color world_ok = 0"
  by (simp_all add: world_ok_def)

lemma world_render_slow_fields:
  "outputDir world_render_slow = ''out''" "path_join world_render_slow = join_slash"
  "write_ok world_render_slow p"
  "run world_render_slow c =
     \<lparr>exit_ok = True, elapsed_ms = (if take 12 c = ''ffmpeg -loop'' then 301000 else 10)\<rparr>"
  by (simp_all add: world_render_slow_def world_ok_def)

lemma world_render_fails_fields:
  "outputDir world_render_fails = ''out''" "path_join world_render_fails = join_slash"
  "write_ok world_render_fails p"
  "run world_render_fails c =
     \<lparr>exit_ok = (take 12 c \<noteq> ''ffmpeg -loop'' \<and> take 9 c \<noteq> ''ffmpeg -i''), elapsed_ms = 10\<rparr>"
  by (simp_all add: world_render_fails_def world_ok_def)

lemma world_empty_files_fields:
  "outputDir world_empty_files = ''out''" "path_join world_empty_files = join_slash"
  "write_ok world_empty_files p"
  "run world_empty_files c = \<lparr>exit_ok = True, elapsed_ms = 1000\<rparr>"
  "stat_size world_empty_files p = Some 0"
  by (simp_all add: world_empty_files_def world_ok_def)

theorem video_failure_terminal_witness:
  "snd (generateVideo world_render_slow example_video_options []) =
     Inl (ExecTimeout (renderCommand world_render_slow
       (renderOptionsOf world_render_slow example_video_options
          [''out/id_segment_0.png'', ''out/id_segment_1.png''] ''out/id_captions.srt'')))
   \<and> snd (generateVideo world_render_fails example_video_options []) =
     Inl (ExecFailed (renderCommand world_render_fails
       (renderOptionsOf world_render_fails example_video_options
          [''out/id_segment_0.png'', ''out/id_segment_1.png''] ''out/id_captions.srt'')))
   \<and> snd (generateVideo world_empty_files example_video_options []) = Inl EmptyVideo
   \<and> snd (generateVideo world_ok example_video_options []) = Inr ''out/id_video.mp4''
   \<and> stat_size world_ok ''out/id_video.mp4'' = Some 1000"
proof -
  have slow: "snd (generateVideo world_render_slow example_video_options []) =
     Inl (ExecTimeout (renderCommand world_render_slow
       (renderOptionsOf world_render_slow example_video_options
          [''out/id_segment_0.png'', ''out/id_segment_1.png''] ''out/id_captions.srt'')))"
  proof -
    obtain tr1 where p: "prepareAssets world_render_slow (script example_video_options) [] =
        (tr1, Inr [''out/id_segment_0.png'', ''out/id_segment_1.png''])"
      using example_assets_ok [of world_render_slow]
      by (auto simp: world_render_slow_fields)
    note g = example_captions_ok [of world_render_slow tr1, OF world_render_slow_fields(1-3)]
    have h: "300000 < elapsed_ms (run world_render_slow (renderCommand world_render_slow
       (renderOptionsOf world_render_slow example_video_options
          [''out/id_segment_0.png'', ''out/id_segment_1.png''] ''out/id_captions.srt'')))"
      by (simp add: world_render_slow_fields(4) take_render)
    note t = video_failure_terminal [OF p g, unfolded Let_def]
    from t [THEN conjunct1] h
    have "generateVideo world_render_slow example_video_options [] =
      ((tr1 @ [WriteFile ''out/id_captions.srt'' (captionsContent example_script)]) @
       [Exec (renderCommand world_render_slow
         (renderOptionsOf world_render_slow example_video_options
            [''out/id_segment_0.png'', ''out/id_segment_1.png''] ''out/id_captions.srt''))],
       Inl (ExecTimeout (renderCommand world_render_slow
         (renderOptionsOf world_render_slow example_video_options
            [''out/id_segment_0.png'', ''out/id_segment_1.png''] ''out/id_captions.srt''))))"
      by (rule mp)
    then show ?thesis by (simp only: snd_conv)
  qed
  have fails: "snd (generateVideo world_render_fails example_video_options []) =
     Inl (ExecFailed (renderCommand world_render_fails
       (renderOptionsOf world_render_fails example_video_options
          [''out/id_segment_0.png'', ''out/id_segment_1.png''] ''out/id_captions.srt'')))"
  proof -
    obtain tr1 where p: "prepareAssets world_render_fails (script example_video_options) [] =
        (tr1, Inr [''out/id_segment_0.png'', ''out/id_segment_1.png''])"
      using example_assets_ok [of world_render_fails]
      by (auto simp: world_render_fails_fields take_convert)
    note g = example_captions_ok [of world_render_fails tr1, OF world_render_fails_fields(1-3)]
    have h: "elapsed_ms (run world_render_fails (renderCommand world_render_fails
       (renderOptionsOf world_render_fails example_video_options
          [''out/id_segment_0.png'', ''out/id_segment_1.png''] ''out/id_captions.srt''))) \<le> 300000
      \<and> \<not> exit_ok (run world_render_fails (renderCommand world_render_fails
       (renderOptionsOf world_render_fails example_video_options
          [''out/id_segment_0.png'', ''out/id_segment_1.png''] ''out/id_captions.srt'')))"
      by (simp add: world_render_fails_fields(4) take_render)
    note t = video_failure_terminal [OF p g, unfolded Let_def]
    from t [THEN conjunct2, THEN conjunct1] h
    have "generateVideo world_render_fails example_video_options [] =
      ((tr1 @ [WriteFile ''out/id_captions.srt'' (captionsContent example_script)]) @
       [Exec (renderCommand world_render_fails
         (renderOptionsOf world_render_fails example_video_options
            [''out/id_segment_0.png'', ''out/id_segment_1.png''] ''out/id_captions.srt''))],
       Inl (ExecFailed (renderCommand world_render_fails
         (renderOptionsOf world_render_fails example_video_options
            [''out/id_segment_0.png'', ''out/id_segment_1.png''] ''out/id_captions.srt''))))"
      by (rule mp)
    then show ?thesis by (simp only: snd_conv)
  qed
  have empty: "snd (generateVideo world_empty_files example_video_options []) = Inl EmptyVideo"
  proof -
    obtain tr1 where p: "prepareAssets world_empty_files (script example_video_options) [] =
        (tr1, Inr [''out/id_segment_0.png'', ''out/id_segment_1.png''])"
      using example_assets_ok [of world_empty_files]
      by (auto simp: world_empty_files_fields)
    note g = example_captions_ok [of world_empty_files tr1, OF world_empty_files_fields(1-3)]
    have h: "elapsed_ms (run world_empty_files c) \<le> 300000 \<and> exit_ok (run world_empty_files c)
        \<and> stat_size world_empty_files q = Some 0" for c q
      by (simp add: world_empty_files_fields)
    note t = video_failure_terminal [OF p g, unfolded Let_def]
    from t [THEN conjunct2, THEN conjunct2, THEN conjunct1] h
    have "generateVideo world_empty_files example_video_options [] =
      ((tr1 @ [WriteFile ''out/id_captions.srt'' (captionsContent example_script)]) @
       [Exec (renderCommand world_empty_files
         (renderOptionsOf world_empty_files example_video_options
            [''out/id_segment_0.png'', ''out/id_segment_1.png''] ''out/id_captions.srt''))],
       Inl EmptyVideo)"
      by (rule mp)
    then show ?thesis by (simp only: snd_conv)
  qed
  have ok: "snd (generateVideo world_ok example_video_options []) = Inr ''out/id_video.mp4''"
  proof -
    obtain tr1 where p: "prepareAssets world_ok (script example_video_options) [] =
        (tr1, Inr [''out/id_segment_0.png'', ''out/id_segment_1.png''])"
      using example_assets_ok [of world_ok]
      by (auto simp: world_ok_fields)
    note g = example_captions_ok [of world_ok tr1, OF world_ok_fields(1-3)]
    have h: "elapsed_ms (run world_ok c) \<le> 300000 \<and> exit_ok (run world_ok c)
        \<and> stat_size world_ok q = Some 1000 \<and> (0::nat) < 1000" for c q
      by (simp add: world_ok_fields)
    note t = video_failure_terminal [OF p g, unfolded Let_def]
    from t [THEN conjunct2, THEN conjunct2, THEN conjunct2, THEN conjunct1, THEN spec, of 1000] h
    have "generateVideo world_ok example_video_options [] =
      ((tr1 @ [WriteFile ''out/id_captions.srt'' (captionsContent example_script)]) @
       [Exec (renderCommand world_ok
         (renderOptionsOf world_ok example_video_options
            [''out/id_segment_0.png'', ''out/id_segment_1.png''] ''out/id_captions.srt''))],
       Inr (videoOutputPath world_ok (script_id (script example_video_options))))"
      by (rule mp)
    then show ?thesis
      by (simp only: snd_conv example_output_path [OF world_ok_fields(1,2)])
  qed
  have "stat_size world_ok ''out/id_video.mp4'' = Some 1000" by (simp add: world_ok_fields)
  with slow fails empty ok show ?thesis by blast
qed

lemma world_no_tools_fields:
  "outputDir world_no_tools = ''out''" "path_join world_no_tools = join_slash"
  "write_ok world_no_tools p"
  "run world_no_tools c = \<lparr>exit_ok = False, elapsed_ms = 10\<rparr>"
  by (simp_all add: world_no_tools_def world_ok_def)

lemma world_no_convert_fields:
  "run world_no_convert c = \<lparr>exit_ok = (take 7 c \<noteq> ''convert''), elapsed_ms = 10\<rparr>"
  by (simp_all add: world_no_convert_def world_ok_def)

lemma take7_segment:
  "take 7 (segmentImageCommand seg out i) = ''convert''"
  "take 7 (segmentFallbackCommand seg out) = ''ffmpeg ''"
  by (simp_all add: segmentImageCommand_def segmentFallbackCommand_def Let_def)

text \<open>
  Where every command succeeds and leaves an empty file, the segment image is
  accepted after the ImageMagick command alone: no fallback runs. Where no tool
  works, the rejection of the ffmpeg fallback reaches the caller of
  \<open>createSegmentImage\<close> and, through it, the caller of \<open>generateVideo\<close>.
\<close>

theorem segment_image_ignores_size_counterexample:
  "stat_size world_empty_files ''out/id_segment_0.png'' = Some 0
   \<and> createSegmentImage world_empty_files example_segment ''out/id_segment_0.png'' 0 [] =
       ([Exec (segmentImageCommand example_segment ''out/id_segment_0.png'' 0)], Inr ())
   \<and> createSegmentImage world_no_tools example_segment ''out/id_segment_0.png'' 0 [] =
       ([Exec (segmentImageCommand example_segment ''out/id_segment_0.png'' 0),
         Exec (segmentFallbackCommand example_segment ''out/id_segment_0.png'')],
        Inl (ExecFailed (segmentFallbackCommand example_segment ''out/id_segment_0.png'')))
   \<and> snd (generateVideo world_no_tools example_video_options []) =
       Inl (ExecFailed (segmentFallbackCommand example_segment ''out/id_segment_0.png''))"
  by (simp add: createSegmentImage_eq world_empty_files_fields world_no_tools_fields
      generateVideo_def Let_def prepareAssets_def example_video_options_def
      example_script_def assetPath_def join_slash_def toString_small)

text \<open>
  Claim C6, as amended. For every segment, when the ImageMagick command succeeds
  its output is accepted and nothing else runs; when it is rejected, the ffmpeg
  command that emits one flat-coloured frame runs at once, and its outcome is the
  outcome: success, or its own rejection, which reaches the caller. The size of
  the produced file is never looked at.
\<close>

theorem segment_image_fallback:
  "let primary = segmentImageCommand segment outputPath index;
       fallback = segmentFallbackCommand segment outputPath
   in (exit_ok (run w primary) \<longrightarrow>
         createSegmentImage w segment outputPath index tr = (tr @ [Exec primary], Inr ()))
    \<and> (\<not> exit_ok (run w primary) \<and> exit_ok (run w fallback) \<longrightarrow>
         createSegmentImage w segment outputPath index tr =
           (tr @ [Exec primary, Exec fallback], Inr ()))
    \<and> (\<not> exit_ok (run w primary) \<and> \<not> exit_ok (run w fallback) \<longrightarrow>
         createSegmentImage w segment outputPath index tr =
           (tr @ [Exec primary, Exec fallback], Inl (ExecFailed fallback)))
    \<and> fallback =
        ''ffmpeg -f lavfi -i color=c='' @ getSegmentColor (type_name (seg_type segment)) @
        '':s=1920x1080:d=1 -frames:v 1 '' @ dq @ outputPath @ dq
    \<and> (\<forall>f. createSegmentImage (w\<lparr>stat_size := f\<rparr>) segment outputPath index tr =
            createSegmentImage w segment outputPath index tr)"
  by (simp add: Let_def createSegmentImage_eq segmentFallbackCommand_def)

theorem segment_image_fallback_witness:
  "createSegmentImage world_no_convert example_segment ''out/id_segment_0.png'' 0 [] =
     ([Exec (segmentImageCommand example_segment ''out/id_segment_0.png'' 0),
       Exec (''ffmpeg -f lavfi -i color=c=darkblue:s=1920x1080:d=1 -frames:v 1 '' @ dq @
             ''out/id_segment_0.png'' @ dq)], Inr ())
   \<and> createSegmentImage world_ok example_segment ''out/id_segment_0.png'' 0 [] =
     ([Exec (segmentImageCommand example_segment ''out/id_segment_0.png'' 0)], Inr ())"
proof -
  have a: "\<not> exit_ok (run world_no_convert (segmentImageCommand example_segment ''out/id_segment_0.png'' 0))
     \<and> exit_ok (run world_no_convert (segmentFallbackCommand example_segment ''out/id_segment_0.png''))"
    by (simp add: world_no_convert_fields take7_segment)
  have b: "exit_ok (run world_ok (segmentImageCommand example_segment ''out/id_segment_0.png'' 0))"
    by (simp add: world_ok_fields)
  have c: "segmentFallbackCommand example_segment ''out/id_segment_0.png'' =
      ''ffmpeg -f lavfi -i color=c=darkblue:s=1920x1080:d=1 -frames:v 1 '' @ dq @
             ''out/id_segment_0.png'' @ dq"
    by (simp add: segmentFallbackCommand_def example_segment_def getSegmentColor_def)
  from segment_image_fallback [of example_segment "''out/id_segment_0.png''" 0 world_no_convert "[]",
      unfolded Let_def, THEN conjunct2, THEN conjunct1] a
  have "createSegmentImage world_no_convert example_segment ''out/id_segment_0.png'' 0 [] =
     ([] @ [Exec (segmentImageCommand example_segment ''out/id_segment_0.png'' 0),
       Exec (segmentFallbackCommand example_segment ''out/id_segment_0.png'')], Inr ())"
    by (rule mp)
  moreover
  from segment_image_fallback [of example_segment "''out/id_segment_0.png''" 0 world_ok "[]",
      unfolded Let_def, THEN conjunct1] b
  have "createSegmentImage world_ok example_segment ''out/id_segment_0.png'' 0 [] =
     ([] @ [Exec (segmentImageCommand example_segment ''out/id_segment_0.png'' 0)], Inr ())"
    by (rule mp)
  ultimately show ?thesis by (simp add: c)
qed

section \<open>Properties of the compiled render graph\<close>

lemma generateVideo_trace:
  assumes "prepareAssets w (script options) tr = (tr1, Inr assets)"
    and "generateCaptions w (script options) (script_id (script options)) tr1 = (tr2, Inr cp)"
  shows "fst (generateVideo w options tr) =
     tr2 @ [Exec (renderCommand w (renderOptionsOf w options assets cp))]"
  using generateVideo_eq [OF assms] by simp

text \<open>
  Claim C4. For every list of visual assets, the command handed to the renderer,
  and run by it once, holds one looped image input per asset, each shown for the
  same 2 seconds, in the order of the list; its filter graph holds one \<open>setpts\<close>
  chain per input and one \<open>concat\<close> of all of them, in that order, into the stream
  \<open>outv\<close>, and, after the audio stage, the subtitles filter with its fixed font, size
  and colour as the last stage, from \<open>outv\<close> to \<open>finalv\<close>, which the command maps to
  the output. The script's duration does not enter the command. The list is in
  segment order: asset \<open>i\<close> is the path at which the image of segment \<open>i\<close> was
  created, and video generation runs the command built from exactly that list.
\<close>

theorem render_graph_visuals:
  "let assets = r_assets opts; n = length assets;
       inputs =
         concat (map (\<lambda>a. ''-loop 1 -t 2 -i '' @ dq @ a @ dq @ '' '') assets) @
         ''-i '' @ dq @ r_voiceoverPath opts @ dq @ '' '' @
         (if access_ok w (musicPathOf w) then ''-i '' @ dq @ musicPathOf w @ dq @ '' '' else []);
       filter =
         concat (map (\<lambda>i. ''['' @ toString i @ '':v]setpts=PTS-STARTPTS[v'' @ toString i @ ''];'')
           [0 ..< n]) @
         concat (map (\<lambda>i. ''[v'' @ toString i @ '']'') [0 ..< n]) @
         ''concat=n='' @ toString n @ '':v=1:a=0[outv];'' @
         (if access_ok w (musicPathOf w) then spec_mix_filter n 3 1
          else spec_passthrough_filter n 10) @
         '';[outv]subtitles='' @ sq @ escapeQuotes (r_captionsPath opts) @ sq @
         '':force_style='' @ sq @ ''FontName=Arial,FontSize=24,PrimaryColour=&HFFFFFF&'' @ sq @
         ''[finalv]'';
       command =
         ''ffmpeg '' @ inputs @ '' '' @
         ''      -filter_complex '' @ dq @ filter @ dq @ '' '' @
         ''      -map '' @ dq @ ''[finalv]'' @ dq @ '' -map '' @ dq @ ''[aout]'' @ dq @ '' '' @
         ''      -c:v libx264 -preset medium -crf 23 '' @
         ''      -c:a aac -b:a 192k '' @
         ''      -r '' @ toString (r_framerate opts) @ '' -s '' @
           toString (fst (r_resolution opts)) @ ''x'' @ toString (snd (r_resolution opts)) @ '' '' @
         ''      -pix_fmt yuv420p '' @
         ''      -shortest '' @
         ''      -y '' @ dq @ r_outputPath opts @ dq
   in renderInputs w opts = inputs
    \<and> renderFilterComplex w opts = filter
    \<and> renderCommand w opts = command
    \<and> renderWithFFmpeg w opts tr =
        (tr @ [Exec command],
         if 300000 < elapsed_ms (run w command) then Inl (ExecTimeout command)
         else if exit_ok (run w command) then Inr () else Inl (ExecFailed command))
    \<and> (\<forall>d. renderCommand w (opts\<lparr>r_duration := d\<rparr>) = command)
    \<and> (\<forall>scr tr0 tr' as. prepareAssets w scr tr0 = (tr', Inr as) \<longrightarrow>
          as = map (assetPath w (script_id scr)) [0 ..< length (segments scr)]
        \<and> tr' = tr0 @ concat (map (\<lambda>i. fst (createSegmentImage w (segments scr ! i)
                    (assetPath w (script_id scr) i) i [])) [0 ..< length (segments scr)]))
    \<and> (\<forall>options tr0 tr1 as tr2 cp.
          prepareAssets w (script options) tr0 = (tr1, Inr as) \<and>
          generateCaptions w (script options) (script_id (script options)) tr1 = (tr2, Inr cp) \<longrightarrow>
            r_assets (renderOptionsOf w options as cp) = as
          \<and> r_captionsPath (renderOptionsOf w options as cp) = cp
          \<and> fst (generateVideo w options tr0) =
              tr2 @ [Exec (renderCommand w (renderOptionsOf w options as cp))])"
proof -
  have c: "renderCommand w opts =
         ''ffmpeg '' @
         (concat (map (\<lambda>a. ''-loop 1 -t 2 -i '' @ dq @ a @ dq @ '' '') (r_assets opts)) @
          ''-i '' @ dq @ r_voiceoverPath opts @ dq @ '' '' @
          (if access_ok w (musicPathOf w) then ''-i '' @ dq @ musicPathOf w @ dq @ '' '' else [])) @
         '' '' @
         ''      -filter_complex '' @ dq @
         (concat (map (\<lambda>i. ''['' @ toString i @ '':v]setpts=PTS-STARTPTS[v'' @ toString i @ ''];'')
           [0 ..< length (r_assets opts)]) @
          concat (map (\<lambda>i. ''[v'' @ toString i @ '']'') [0 ..< length (r_assets opts)]) @
          ''concat=n='' @ toString (length (r_assets opts)) @ '':v=1:a=0[outv];'' @
          (if access_ok w (musicPathOf w) then spec_mix_filter (length (r_assets opts)) 3 1
           else spec_passthrough_filter (length (r_assets opts)) 10) @
          '';[outv]subtitles='' @ sq @ escapeQuotes (r_captionsPath opts) @ sq @
          '':force_style='' @ sq @ ''FontName=Arial,FontSize=24,PrimaryColour=&HFFFFFF&'' @ sq @
          ''[finalv]'') @
         dq @ '' '' @
         ''      -map '' @ dq @ ''[finalv]'' @ dq @ '' -map '' @ dq @ ''[aout]'' @ dq @ '' '' @
         ''      -c:v libx264 -preset medium -crf 23 '' @
         ''      -c:a aac -b:a 192k '' @
         ''      -r '' @ toString (r_framerate opts) @ '' -s '' @
           toString (fst (r_resolution opts)) @ ''x'' @ toString (snd (r_resolution opts)) @ '' '' @
         ''      -pix_fmt yuv420p '' @
         ''      -shortest '' @
         ''      -y '' @ dq @ r_outputPath opts @ dq"
    unfolding renderCommand_eq subtitlesFilter_def by simp
  have i: "renderInputs w opts =
         concat (map (\<lambda>a. ''-loop 1 -t 2 -i '' @ dq @ a @ dq @ '' '') (r_assets opts)) @
         ''-i '' @ dq @ r_voiceoverPath opts @ dq @ '' '' @
         (if access_ok w (musicPathOf w) then ''-i '' @ dq @ musicPathOf w @ dq @ '' '' else [])"
    by (rule renderInputs_eq)
  have f: "renderFilterComplex w opts =
          concat (map (\<lambda>i. ''['' @ toString i @ '':v]setpts=PTS-STARTPTS[v'' @ toString i @ ''];'')
           [0 ..< length (r_assets opts)]) @
          concat (map (\<lambda>i. ''[v'' @ toString i @ '']'') [0 ..< length (r_assets opts)]) @
          ''concat=n='' @ toString (length (r_assets opts)) @ '':v=1:a=0[outv];'' @
          (if access_ok w (musicPathOf w) then spec_mix_filter (length (r_assets opts)) 3 1
           else spec_passthrough_filter (length (r_assets opts)) 10) @
          '';[outv]subtitles='' @ sq @ escapeQuotes (r_captionsPath opts) @ sq @
          '':force_style='' @ sq @ ''FontName=Arial,FontSize=24,PrimaryColour=&HFFFFFF&'' @ sq @
          ''[finalv]''"
    unfolding renderFilterComplex_eq subtitlesFilter_def by simp
  have r: "renderWithFFmpeg w opts tr =
        (tr @ [Exec (renderCommand w opts)],
         if 300000 < elapsed_ms (run w (renderCommand w opts))
         then Inl (ExecTimeout (renderCommand w opts))
         else if exit_ok (run w (renderCommand w opts)) then Inr ()
         else Inl (ExecFailed (renderCommand w opts)))"
    by (rule renderWithFFmpeg_eq)
  have d: "\<forall>d. renderCommand w (opts\<lparr>r_duration := d\<rparr>) = renderCommand w opts"
    by (simp add: renderCommand_duration)
  have p: "\<forall>scr tr0 tr' as. prepareAssets w scr tr0 = (tr', Inr as) \<longrightarrow>
          as = map (assetPath w (script_id scr)) [0 ..< length (segments scr)]
        \<and> tr' = tr0 @ concat (map (\<lambda>i. fst (createSegmentImage w (segments scr ! i)
                    (assetPath w (script_id scr) i) i [])) [0 ..< length (segments scr)])"
    using prepareAssets_assets prepareAssets_trace by blast
  have g: "\<forall>options tr0 tr1 as tr2 cp.
          prepareAssets w (script options) tr0 = (tr1, Inr as) \<and>
          generateCaptions w (script options) (script_id (script options)) tr1 = (tr2, Inr cp) \<longrightarrow>
            r_assets (renderOptionsOf w options as cp) = as
          \<and> r_captionsPath (renderOptionsOf w options as cp) = cp
          \<and> fst (generateVideo w options tr0) =
              tr2 @ [Exec (renderCommand w (renderOptionsOf w options as cp))]"
    using generateVideo_trace by (simp add: renderOptionsOf_def)
  show ?thesis
    unfolding Let_def
    using i f c r [unfolded c] d [unfolded c] p g
    by (intro conjI)
qed

lemma run_world_ok: "run world_ok c = \<lparr>exit_ok = True, elapsed_ms = 1000\<rparr>"
  by (simp add: world_ok_def)

theorem render_graph_visuals_witness:
  "prepareAssets world_ok example_script [] =
     ([Exec (segmentImageCommand (segments example_script ! 0) ''out/id_segment_0.png'' 0),
       Exec (segmentImageCommand (segments example_script ! 1) ''out/id_segment_1.png'' 1)],
      Inr [''out/id_segment_0.png'', ''out/id_segment_1.png''])
   \<and> fst (renderWithFFmpeg world_ok
       \<lparr>r_voiceoverPath = ''out/voice.mp3'',
        r_assets = [''out/id_segment_0.png'', ''out/id_segment_1.png''],
        r_captionsPath = ''out/id_captions.srt'', r_outputPath = ''out/id_video.mp4'',
        r_resolution = (1920, 1080), r_framerate = 30, r_duration = 3725\<rparr> []) =
     [Exec (''ffmpeg -loop 1 -t 2 -i '' @ dq @ ''out/id_segment_0.png'' @ dq @
        '' -loop 1 -t 2 -i '' @ dq @ ''out/id_segment_1.png'' @ dq @
        '' -i '' @ dq @ ''out/voice.mp3'' @ dq @ ''  '' @
        ''      -filter_complex '' @ dq @
        ''[0:v]setpts=PTS-STARTPTS[v0];[1:v]setpts=PTS-STARTPTS[v1];'' @
        ''[v0][v1]concat=n=2:v=1:a=0[outv];[2:a]volume=1.0[aout]'' @
        '';[outv]subtitles='' @ sq @ ''out/id_captions.srt'' @ sq @ '':force_style='' @ sq @
        ''FontName=Arial,FontSize=24,PrimaryColour=&HFFFFFF&'' @ sq @ ''[finalv]'' @ dq @ '' '' @
        ''      -map '' @ dq @ ''[finalv]'' @ dq @ '' -map '' @ dq @ ''[aout]'' @ dq @ '' '' @
        ''      -c:v libx264 -preset medium -crf 23 '' @
        ''      -c:a aac -b:a 192k '' @
        ''      -r 30 -s 1920x1080 '' @
        ''      -pix_fmt yuv420p '' @
        ''      -shortest '' @
        ''      -y '' @ dq @ ''out/id_video.mp4'' @ dq)]"
proof -
  let ?opts = "\<lparr>r_voiceoverPath = ''out/voice.mp3'',
        r_assets = [''out/id_segment_0.png'', ''out/id_segment_1.png''],
        r_captionsPath = ''out/id_captions.srt'', r_outputPath = ''out/id_video.mp4'',
        r_resolution = (1920, 1080), r_framerate = 30, r_duration = 3725\<rparr>"
  note t = render_graph_visuals [of ?opts world_ok "[]", unfolded Let_def]
  obtain tr' r where e: "prepareAssets world_ok example_script [] = (tr', r)"
    by (cases "prepareAssets world_ok example_script []")
  then have "\<exists>as. r = Inr as"
    by (auto simp: prepareAssets_def example_script_def createSegmentImage_eq run_world_ok)
  then obtain as where r: "r = Inr as" ..
  from e r have e': "prepareAssets world_ok example_script [] = (tr', Inr as)" by simp
  note u = t [THEN conjunct2, THEN conjunct2, THEN conjunct2, THEN conjunct2, THEN conjunct2,
      THEN conjunct1, rule_format, OF e']
  from u have "as = [''out/id_segment_0.png'', ''out/id_segment_1.png'']"
    by (simp add: example_script_def assetPath_def world_ok_def join_slash_def toString_small
        upt_rec [of 0] upt_rec [of 1])
  moreover from u have "tr' =
     [Exec (segmentImageCommand (segments example_script ! 0) ''out/id_segment_0.png'' 0),
       Exec (segmentImageCommand (segments example_script ! 1) ''out/id_segment_1.png'' 1)]"
    by (simp add: example_script_def assetPath_def join_slash_def toString_small
        world_ok_fields createSegmentImage_eq upt_rec [of 0] upt_rec [of 1])
  ultimately have a: "prepareAssets world_ok example_script [] =
     ([Exec (segmentImageCommand (segments example_script ! 0) ''out/id_segment_0.png'' 0),
       Exec (segmentImageCommand (segments example_script ! 1) ''out/id_segment_1.png'' 1)],
      Inr [''out/id_segment_0.png'', ''out/id_segment_1.png''])"
    using e' by simp
  have m: "access_ok world_ok (musicPathOf world_ok) = False" by (simp add: world_ok_fields)
  from t [THEN conjunct2, THEN conjunct2, THEN conjunct2, THEN conjunct1]
  have b: "fst (renderWithFFmpeg world_ok ?opts []) =
     [Exec (''ffmpeg -loop 1 -t 2 -i '' @ dq @ ''out/id_segment_0.png'' @ dq @
        '' -loop 1 -t 2 -i '' @ dq @ ''out/id_segment_1.png'' @ dq @
        '' -i '' @ dq @ ''out/voice.mp3'' @ dq @ ''  '' @
        ''      -filter_complex '' @ dq @
        ''[0:v]setpts=PTS-STARTPTS[v0];[1:v]setpts=PTS-STARTPTS[v1];'' @
        ''[v0][v1]concat=n=2:v=1:a=0[outv];[2:a]volume=1.0[aout]'' @
        '';[outv]subtitles='' @ sq @ ''out/id_captions.srt'' @ sq @ '':force_style='' @ sq @
        ''FontName=Arial,FontSize=24,PrimaryColour=&HFFFFFF&'' @ sq @ ''[finalv]'' @ dq @ '' '' @
        ''      -map '' @ dq @ ''[finalv]'' @ dq @ '' -map '' @ dq @ ''[aout]'' @ dq @ '' '' @
        ''      -c:v libx264 -preset medium -crf 23 '' @
        ''      -c:a aac -b:a 192k '' @
        ''      -r 30 -s 1920x1080 '' @
        ''      -pix_fmt yuv420p '' @
        ''      -shortest '' @
        ''      -y '' @ dq @ ''out/id_video.mp4'' @ dq)]"
    by (simp add: m spec_passthrough_filter_def level_text_values toString_small
        escapeQuotes_def toString.simps digit_char_def)
  from a b show ?thesis by blast
qed

section \<open>Properties of an empty timeline\<close>

lemma length_pushSegment: "length (fst (pushSegment st ty txt h)) = Suc (length (fst st))"
  by (simp add: pushSegment_def Let_def)

lemma length_pushExplanation:
  "length (fst (pushExplanation st i ps)) = length (fst st) + length ps"
  by (induction st i ps rule: pushExplanation.induct) (simp_all add: length_pushSegment)

lemma length_generateScript:
  "length (segments (generateScript q u hook context expl summary cta)) = length expl + 4"
  by (simp add: generateScript_def Let_def length_pushSegment length_pushExplanation)

lemma empty_render_filter:
  "renderFilterComplex w (renderOptionsOf w options [] cp) =
     ''concat=n=0:v=1:a=0[outv];'' @
     (if access_ok w (musicPathOf w) then spec_mix_filter 0 3 1 else spec_passthrough_filter 0 10) @
     subtitlesFilter cp"
  by (simp add: renderFilterComplex_eq renderOptionsOf_def toString_small)

text \<open>
  For a script without segments, caption generation writes an empty document and
  succeeds, and asset preparation succeeds with no asset; where no tool works,
  video generation fails only when the renderer, which it does run, is rejected.
\<close>

theorem empty_timeline_no_error_counterexample:
  "generateCaptions world_ok empty_script ''id'' [] =
     ([WriteFile ''out/id_captions.srt'' []], Inr ''out/id_captions.srt'')
   \<and> prepareAssets world_ok empty_script [] = ([], Inr [])
   \<and> generateVideo world_no_tools (example_video_options\<lparr>script := empty_script\<rparr>) [] =
       ([WriteFile ''out/id_captions.srt'' [],
         Exec (renderCommand world_no_tools
           (renderOptionsOf world_no_tools (example_video_options\<lparr>script := empty_script\<rparr>) []
              ''out/id_captions.srt''))],
        Inl (ExecFailed (renderCommand world_no_tools
           (renderOptionsOf world_no_tools (example_video_options\<lparr>script := empty_script\<rparr>) []
              ''out/id_captions.srt''))))"
  by (simp add: generateCaptions_def generateVideo_def prepareAssets_def captionsContent_def
      captionsPathOf_def empty_script_def example_script_def example_video_options_def Let_def
      world_ok_fields world_no_tools_fields join_slash_def renderWithFFmpeg_def execAsync_render)

text \<open>
  Claim C9, as amended. The script generator never yields an empty segment list:
  a script has four segments besides its explanation paragraphs, and an empty
  list of paragraphs adds none. For a script whose segment list is empty no stage
  raises an error of its own: the caption document is empty and is written, no
  asset is prepared and no command run for it, the render graph concatenates zero
  visual inputs, and video generation runs the renderer once; it fails only if
  the write, the renderer or the size check of the output fails.
\<close>

theorem empty_timeline:
  assumes "segments (script options) = []"
  shows "let scr = script options;
             cp = captionsPathOf w (script_id scr);
             cmd = renderCommand w (renderOptionsOf w options [] cp);
             out = videoOutputPath w (script_id scr)
         in captionsContent scr = []
          \<and> generateCaptions w scr (script_id scr) tr =
              (tr @ [WriteFile cp []], if write_ok w cp then Inr cp else Inl (WriteFailed cp))
          \<and> prepareAssets w scr tr = (tr, Inr [])
          \<and> renderFilterComplex w (renderOptionsOf w options [] cp) =
              ''concat=n=0:v=1:a=0[outv];'' @
              (if access_ok w (musicPathOf w) then spec_mix_filter 0 3 1
               else spec_passthrough_filter 0 10) @
              subtitlesFilter cp
          \<and> (\<not> write_ok w cp \<longrightarrow>
                generateVideo w options tr = (tr @ [WriteFile cp []], Inl (WriteFailed cp)))
          \<and> (write_ok w cp \<longrightarrow>
                generateVideo w options tr =
                  (tr @ [WriteFile cp [], Exec cmd],
                   if 300000 < elapsed_ms (run w cmd) then Inl (ExecTimeout cmd)
                   else if \<not> exit_ok (run w cmd) then Inl (ExecFailed cmd)
                   else (case stat_size w out of
                           None \<Rightarrow> Inl (StatFailed out)
                         | Some n \<Rightarrow> if n = 0 then Inl EmptyVideo else Inr out)))
          \<and> (\<forall>q u hook context expl summary cta.
                length (segments (generateScript q u hook context expl summary cta)) =
                  length expl + 4)
          \<and> (\<forall>st i. pushExplanation st i [] = st)"
proof -
  have c: "captionsContent (script options) = []"
    using assms by (simp add: captionsContent_def)
  have g: "generateCaptions w (script options) (script_id (script options)) tr =
      (tr @ [WriteFile (captionsPathOf w (script_id (script options))) []],
       if write_ok w (captionsPathOf w (script_id (script options)))
       then Inr (captionsPathOf w (script_id (script options)))
       else Inl (WriteFailed (captionsPathOf w (script_id (script options)))))"
    by (simp add: generateCaptions_def Let_def c)
  have p: "prepareAssets w (script options) tr = (tr, Inr [])"
    using assms by (simp add: prepareAssets_def)
  have v1: "\<not> write_ok w (captionsPathOf w (script_id (script options))) \<longrightarrow>
      generateVideo w options tr =
        (tr @ [WriteFile (captionsPathOf w (script_id (script options))) []],
         Inl (WriteFailed (captionsPathOf w (script_id (script options)))))"
    by (simp add: generateVideo_def Let_def p g)
  have v2: "write_ok w (captionsPathOf w (script_id (script options))) \<longrightarrow>
      generateVideo w options tr =
        (tr @ [WriteFile (captionsPathOf w (script_id (script options))) [],
               Exec (renderCommand w (renderOptionsOf w options []
                 (captionsPathOf w (script_id (script options)))))],
         if 300000 < elapsed_ms (run w (renderCommand w (renderOptionsOf w options []
                 (captionsPathOf w (script_id (script options))))))
         then Inl (ExecTimeout (renderCommand w (renderOptionsOf w options []
                 (captionsPathOf w (script_id (script options))))))
         else if \<not> exit_ok (run w (renderCommand w (renderOptionsOf w options []
                 (captionsPathOf w (script_id (script options))))))
         then Inl (ExecFailed (renderCommand w (renderOptionsOf w options []
                 (captionsPathOf w (script_id (script options))))))
         else (case stat_size w (videoOutputPath w (script_id (script options))) of
                 None \<Rightarrow> Inl (StatFailed (videoOutputPath w (script_id (script options))))
               | Some n \<Rightarrow> if n = 0 then Inl EmptyVideo
                           else Inr (videoOutputPath w (script_id (script options)))))"
  proof
    assume "write_ok w (captionsPathOf w (script_id (script options)))"
    with g have "generateCaptions w (script options) (script_id (script options)) tr =
      (tr @ [WriteFile (captionsPathOf w (script_id (script options))) []],
       Inr (captionsPathOf w (script_id (script options))))" by simp
    from generateVideo_eq [OF p this] show "generateVideo w options tr =
        (tr @ [WriteFile (captionsPathOf w (script_id (script options))) [],
               Exec (renderCommand w (renderOptionsOf w options []
                 (captionsPathOf w (script_id (script options)))))],
         if 300000 < elapsed_ms (run w (renderCommand w (renderOptionsOf w options []
                 (captionsPathOf w (script_id (script options))))))
         then Inl (ExecTimeout (renderCommand w (renderOptionsOf w options []
                 (captionsPathOf w (script_id (script options))))))
         else if \<not> exit_ok (run w (renderCommand w (renderOptionsOf w options []
                 (captionsPathOf w (script_id (script options))))))
         then Inl (ExecFailed (renderCommand w (renderOptionsOf w options []
                 (captionsPathOf w (script_id (script options))))))
         else (case stat_size w (videoOutputPath w (script_id (script options))) of
                 None \<Rightarrow> Inl (StatFailed (videoOutputPath w (script_id (script options))))
               | Some n \<Rightarrow> if n = 0 then Inl EmptyVideo
                           else Inr (videoOutputPath w (script_id (script options)))))"
      by simp
  qed
  have e: "\<forall>st i. pushExplanation st i [] = st" by simp
  from c g p empty_render_filter [of w options] v1 v2 length_generateScript e
  show ?thesis unfolding Let_def by blast
qed

theorem empty_timeline_witness:
  "segments (script (example_video_options\<lparr>script := empty_script\<rparr>)) = []
   \<and> captionsContent (script (example_video_options\<lparr>script := empty_script\<rparr>)) = []
   \<and> prepareAssets world_no_tools (script (example_video_options\<lparr>script := empty_script\<rparr>)) [] =
       ([], Inr [])"
proof -
  have h: "segments (script (example_video_options\<lparr>script := empty_script\<rparr>)) = []"
    by (simp add: empty_script_def)
  note t = empty_timeline [OF h, of world_no_tools "[]", unfolded Let_def]
  from h t [THEN conjunct1] t [THEN conjunct2, THEN conjunct2, THEN conjunct1]
  show ?thesis by blast
qed

section \<open>Properties of the thumbnail ladder\<close>

lemma thumbnailTry_eq:
  "thumbnailTry w options tr =
   (let frame = framePathOf w;
        path = thumbnailPathOf w options;
        style = (case t_style options of None \<Rightarrow> ''bold'' | Some s \<Rightarrow> s);
        ex = extractFrameCommand (t_videoPath options) frame;
        ov = overlayCommand w frame path (t_query options) style;
        dt = drawtextCommand frame path (t_query options);
        sized = (\<lambda>t. case stat_size w path of
                   None \<Rightarrow> (t @ [Unlink frame], Inl (StatFailed path))
                 | Some n \<Rightarrow> if n = 0 then (t @ [Unlink frame], Inl EmptyThumbnail)
                             else (t @ [Unlink frame], Inr path))
    in if \<not> exit_ok (run w ex) then (tr @ [Exec ex], Inl (ExecFailed ex))
       else if exit_ok (run w ov) then sized (tr @ [Exec ex, Exec ov])
       else if exit_ok (run w dt) then sized (tr @ [Exec ex, Exec ov, Exec dt])
       else (tr @ [Exec ex, Exec ov, Exec dt], Inl (ExecFailed dt)))"
  by (simp add: thumbnailTry_def extractVideoFrame_def createThumbnailWithOverlay_def
      createThumbnailWithFFmpeg_def execAsync_0 Let_def split: option.splits)

lemma generateThumbnail_eq:
  "generateThumbnail w options tr =
   (case thumbnailTry w options tr of
      (tr1, Inr p) \<Rightarrow> (tr1, Inr p)
    | (tr1, Inl e) \<Rightarrow>
        (tr1 @ [Exec (fallbackCommand w (thumbnailPathOf w options) (t_query options))],
         if exit_ok (run w (fallbackCommand w (thumbnailPathOf w options) (t_query options)))
         then Inr (thumbnailPathOf w options)
         else Inl (ExecFailed (fallbackCommand w (thumbnailPathOf w options) (t_query options)))))"
  by (simp add: generateThumbnail_def generateFallbackThumbnail_def execAsync_0
      split: prod.splits sum.splits)

text \<open>
  Claim C8, as amended. The thumbnail generator extracts a frame and runs the
  ImageMagick overlay on it; if that command is rejected it runs the ffmpeg
  text-draw overlay on the same frame. A thumbnail of non-zero size from either is
  returned. If the frame extraction is rejected, or both overlays are, or the
  thumbnail is missing or empty afterwards, the flat-colour command with a centred
  text runs, without the text-draw overlay being tried when the extraction failed
  or when ImageMagick succeeded. The result is an error exactly when the
  flat-colour command is reached and rejected; when it succeeds its output is
  returned without a look at its size.
\<close>

theorem thumbnail_ladder:
  "let frame = framePathOf w;
       path = thumbnailPathOf w options;
       style = (case t_style options of None \<Rightarrow> ''bold'' | Some s \<Rightarrow> s);
       ex = extractFrameCommand (t_videoPath options) frame;
       ov = overlayCommand w frame path (t_query options) style;
       dt = drawtextCommand frame path (t_query options);
       fb = fallbackCommand w path (t_query options);
       nonempty = (\<exists>n. 0 < n \<and> stat_size w path = Some n);
       flat = (if exit_ok (run w fb) then Inr path else Inl (ExecFailed fb))
   in (exit_ok (run w ex) \<and> exit_ok (run w ov) \<and> nonempty \<longrightarrow>
         generateThumbnail w options tr = (tr @ [Exec ex, Exec ov, Unlink frame], Inr path))
    \<and> (exit_ok (run w ex) \<and> \<not> exit_ok (run w ov) \<and> exit_ok (run w dt) \<and> nonempty \<longrightarrow>
         generateThumbnail w options tr =
           (tr @ [Exec ex, Exec ov, Exec dt, Unlink frame], Inr path))
    \<and> (\<not> exit_ok (run w ex) \<longrightarrow>
         generateThumbnail w options tr = (tr @ [Exec ex, Exec fb], flat))
    \<and> (exit_ok (run w ex) \<and> \<not> exit_ok (run w ov) \<and> \<not> exit_ok (run w dt) \<longrightarrow>
         generateThumbnail w options tr = (tr @ [Exec ex, Exec ov, Exec dt, Exec fb], flat))
    \<and> (exit_ok (run w ex) \<and> exit_ok (run w ov) \<and> \<not> nonempty \<longrightarrow>
         generateThumbnail w options tr =
           (tr @ [Exec ex, Exec ov, Unlink frame, Exec fb], flat))
    \<and> (exit_ok (run w ex) \<and> \<not> exit_ok (run w ov) \<and> exit_ok (run w dt) \<and> \<not> nonempty \<longrightarrow>
         generateThumbnail w options tr =
           (tr @ [Exec ex, Exec ov, Exec dt, Unlink frame, Exec fb], flat))
    \<and> (\<forall>e. snd (generateThumbnail w options tr) = Inl e \<longrightarrow>
          e = ExecFailed fb \<and> \<not> exit_ok (run w fb) \<and>
          (\<not> exit_ok (run w ex) \<or> (\<not> exit_ok (run w ov) \<and> \<not> exit_ok (run w dt)) \<or> \<not> nonempty))
    \<and> (\<forall>p. snd (generateThumbnail w options tr) = Inr p \<longrightarrow>
          p = path \<and> (nonempty \<or> exit_ok (run w fb)))
    \<and> (exit_ok (run w fb) \<longrightarrow> snd (generateThumbnail w options tr) = Inr path)"
  unfolding generateThumbnail_eq thumbnailTry_eq Let_def
  by (cases "stat_size w (thumbnailPathOf w options)") auto

lemma thumbnail_command_prefixes:
  "take 15 (extractFrameCommand v f) \<noteq> ''ffmpeg -f lavfi''"
  "take 15 (overlayCommand w b out q s) \<noteq> ''ffmpeg -f lavfi''"
  "take 15 (drawtextCommand b out q) \<noteq> ''ffmpeg -f lavfi''"
  "take 15 (fallbackCommand w out q) = ''ffmpeg -f lavfi''"
  "take 9 (extractFrameCommand v f) = ''ffmpeg -i''"
  "take 9 (fallbackCommand w out q) \<noteq> ''ffmpeg -i''"
  "take 7 (extractFrameCommand v f) \<noteq> ''convert''"
  "take 7 (overlayCommand w b out q s) = ''convert''"
  "take 7 (drawtextCommand b out q) \<noteq> ''convert''"
  by (simp_all add: extractFrameCommand_def overlayCommand_def drawtextCommand_def
      fallbackCommand_def Let_def)

lemma world_no_lavfi_fields:
  "run world_no_lavfi c = \<lparr>exit_ok = (take 15 c \<noteq> ''ffmpeg -f lavfi''), elapsed_ms = 10\<rparr>"
  "stat_size world_no_lavfi p = Some 0"
  by (simp_all add: world_no_lavfi_def world_ok_def)

lemma world_no_video_fields:
  "run world_no_video c = \<lparr>exit_ok = (take 9 c \<noteq> ''ffmpeg -i''), elapsed_ms = 10\<rparr>"
  "stat_size world_no_video p = Some 0"
  by (simp_all add: world_no_video_def world_ok_def)

lemma example_thumbnail_path:
  "outputDir w = ''out'' \<Longrightarrow> path_join w = join_slash \<Longrightarrow>
   thumbnailPathOf w example_thumbnail_options = ''out/id_thumbnail.png''"
  by (simp add: thumbnailPathOf_def example_thumbnail_options_def example_script_def
      join_slash_def)

text \<open>
  Where ffmpeg cannot synthesise a colour source and files are left empty, the
  ImageMagick overlay succeeds, the empty thumbnail is rejected, the text-draw
  overlay is never tried although it would succeed, and the flat-colour command
  fails: the result is an error. Where the video cannot be read and files are left
  empty, the flat-colour command succeeds and its empty output is returned.
\<close>

theorem thumbnail_ladder_counterexample:
  "generateThumbnail world_no_lavfi example_thumbnail_options [] =
     ([Exec (extractFrameCommand ''out/id_video.mp4'' (framePathOf world_no_lavfi)),
       Exec (overlayCommand world_no_lavfi (framePathOf world_no_lavfi) ''out/id_thumbnail.png''
               ''ai tools'' ''bold''),
       Unlink (framePathOf world_no_lavfi),
       Exec (fallbackCommand world_no_lavfi ''out/id_thumbnail.png'' ''ai tools'')],
      Inl (ExecFailed (fallbackCommand world_no_lavfi ''out/id_thumbnail.png'' ''ai tools'')))
   \<and> exit_ok (run world_no_lavfi
        (drawtextCommand (framePathOf world_no_lavfi) ''out/id_thumbnail.png'' ''ai tools''))
   \<and> generateThumbnail world_no_video example_thumbnail_options [] =
     ([Exec (extractFrameCommand ''out/id_video.mp4'' (framePathOf world_no_video)),
       Exec (fallbackCommand world_no_video ''out/id_thumbnail.png'' ''ai tools'')],
      Inr ''out/id_thumbnail.png'')
   \<and> stat_size world_no_video ''out/id_thumbnail.png'' = Some 0"
proof -
  have p1: "thumbnailPathOf world_no_lavfi example_thumbnail_options = ''out/id_thumbnail.png''"
    by (rule example_thumbnail_path) (simp_all add: world_no_lavfi_def world_ok_def)
  have p2: "thumbnailPathOf world_no_video example_thumbnail_options = ''out/id_thumbnail.png''"
    by (rule example_thumbnail_path) (simp_all add: world_no_video_def world_ok_def)
  have o: "t_videoPath example_thumbnail_options = ''out/id_video.mp4''"
    "t_query example_thumbnail_options = ''ai tools''"
    "t_style example_thumbnail_options = None"
    by (simp_all add: example_thumbnail_options_def)
  have a: "generateThumbnail world_no_lavfi example_thumbnail_options [] =
     ([Exec (extractFrameCommand ''out/id_video.mp4'' (framePathOf world_no_lavfi)),
       Exec (overlayCommand world_no_lavfi (framePathOf world_no_lavfi) ''out/id_thumbnail.png''
               ''ai tools'' ''bold''),
       Unlink (framePathOf world_no_lavfi),
       Exec (fallbackCommand world_no_lavfi ''out/id_thumbnail.png'' ''ai tools'')],
      Inl (ExecFailed (fallbackCommand world_no_lavfi ''out/id_thumbnail.png'' ''ai tools'')))"
    unfolding generateThumbnail_eq thumbnailTry_eq Let_def p1 o
    by (simp add: world_no_lavfi_fields thumbnail_command_prefixes)
  have b: "exit_ok (run world_no_lavfi
        (drawtextCommand (framePathOf world_no_lavfi) ''out/id_thumbnail.png'' ''ai tools''))"
    by (simp add: world_no_lavfi_fields thumbnail_command_prefixes)
  have c: "generateThumbnail world_no_video example_thumbnail_options [] =
     ([Exec (extractFrameCommand ''out/id_video.mp4'' (framePathOf world_no_video)),
       Exec (fallbackCommand world_no_video ''out/id_thumbnail.png'' ''ai tools'')],
      Inr ''out/id_thumbnail.png'')"
    unfolding generateThumbnail_eq thumbnailTry_eq Let_def p2 o
    by (simp add: world_no_video_fields thumbnail_command_prefixes)
  have d: "stat_size world_no_video ''out/id_thumbnail.png'' = Some 0"
    by (simp add: world_no_video_fields)
  from a b c d show ?thesis by blast
qed

theorem thumbnail_ladder_witness:
  "generateThumbnail world_no_convert example_thumbnail_options [] =
     ([Exec (extractFrameCommand ''out/id_video.mp4'' (framePathOf world_no_convert)),
       Exec (overlayCommand world_no_convert (framePathOf world_no_convert) ''out/id_thumbnail.png''
               ''ai tools'' ''bold''),
       Exec (drawtextCommand (framePathOf world_no_convert) ''out/id_thumbnail.png'' ''ai tools''),
       Unlink (framePathOf world_no_convert)],
      Inr ''out/id_thumbnail.png'')
   \<and> stat_size world_no_convert ''out/id_thumbnail.png'' = Some 1000"
proof -
  have p: "thumbnailPathOf world_no_convert example_thumbnail_options = ''out/id_thumbnail.png''"
    by (rule example_thumbnail_path) (simp_all add: world_no_convert_def world_ok_def)
  have o: "t_videoPath example_thumbnail_options = ''out/id_video.mp4''"
    "t_query example_thumbnail_options = ''ai tools''"
    "(case t_style example_thumbnail_options of None \<Rightarrow> ''bold'' | Some s \<Rightarrow> s) = ''bold''"
    by (simp_all add: example_thumbnail_options_def)
  have s: "stat_size world_no_convert ''out/id_thumbnail.png'' = Some 1000"
    by (simp add: world_no_convert_def world_ok_def)
  have h: "exit_ok (run world_no_convert
          (extractFrameCommand ''out/id_video.mp4'' (framePathOf world_no_convert)))
     \<and> \<not> exit_ok (run world_no_convert
          (overlayCommand world_no_convert (framePathOf world_no_convert) ''out/id_thumbnail.png''
             ''ai tools'' ''bold''))
     \<and> exit_ok (run world_no_convert
          (drawtextCommand (framePathOf world_no_convert) ''out/id_thumbnail.png'' ''ai tools''))
     \<and> (\<exists>n. 0 < n \<and> stat_size world_no_convert ''out/id_thumbnail.png'' = Some n)"
    by (simp add: world_no_convert_fields thumbnail_command_prefixes s)
  from thumbnail_ladder [of world_no_convert example_thumbnail_options "[]",
      unfolded Let_def p o, THEN conjunct2, THEN conjunct1] h
  have "generateThumbnail world_no_convert example_thumbnail_options [] =
     ([] @ [Exec (extractFrameCommand ''out/id_video.mp4'' (framePathOf world_no_convert)),
       Exec (overlayCommand world_no_convert (framePathOf world_no_convert) ''out/id_thumbnail.png''
               ''ai tools'' ''bold''),
       Exec (drawtextCommand (framePathOf world_no_convert) ''out/id_thumbnail.png'' ''ai tools''),
       Unlink (framePathOf world_no_convert)],
      Inr ''out/id_thumbnail.png'')"
    by (rule mp)
  with s show ?thesis by simp
qed

end
